theory Spec2Isabelle
  imports Complex_Main "HOL-Library.AList"
begin

section \<open>JavaScript values\<close>

text \<open>
  A JavaScript string is a sequence of UTF-16 code units: a list of numbers. The
  strings the source writes out, the names of schema fields, the messages, and the
  request headers, which arrive as bytes, are lists of 8-bit characters; \<open>units\<close>
  takes such a string to its code units.
\<close>

type_synonym ustring = "nat list"

definition code_unit :: "char \<Rightarrow> nat" where
  "code_unit c = of_char c"

definition units :: "string \<Rightarrow> ustring" where
  "units s = map code_unit s"

text \<open>
  The values a parsed JSON request body is made of, with \<^verbatim>\<open>undefined\<close> for what a
  property read yields when the property is absent, and the built-in functions,
  named, that a property read can find on a prototype. An object is as
  \<^verbatim>\<open>JSON.parse\<close> makes it: the list of its own properties, none of them a function. A
  number is \<^verbatim>\<open>NaN\<close>, an infinity or a finite value; the two zeros are one.
\<close>

datatype jsnum = NaN | NegInf | Fin rat | PosInf

datatype jsval =
    JUndefined
  | JNull
  | JBool bool
  | JNum jsnum
  | JStr ustring
  | JArr "jsval list"
  | JObj "(ustring \<times> jsval) list"
  | JFunction string

datatype js_error = TypeError | Thrown string

datatype js_type = TyUndefined | TyObject | TyBoolean | TyNumber | TyString | TyFunction

fun typeof :: "jsval \<Rightarrow> js_type" where
  "typeof JUndefined = TyUndefined"
| "typeof JNull = TyObject"
| "typeof (JBool b) = TyBoolean"
| "typeof (JNum n) = TyNumber"
| "typeof (JStr s) = TyString"
| "typeof (JArr xs) = TyObject"
| "typeof (JObj kvs) = TyObject"
| "typeof (JFunction f) = TyFunction"

fun isArray :: "jsval \<Rightarrow> bool" where
  "isArray (JArr xs) = True"
| "isArray v = False"

definition isNaN :: "jsnum \<Rightarrow> bool" where
  "isNaN n \<longleftrightarrow> n = NaN"

text \<open>Truthiness, as \<^verbatim>\<open>!x\<close> and \<^verbatim>\<open>a || b\<close> use it.\<close>

fun truthy :: "jsval \<Rightarrow> bool" where
  "truthy JUndefined = False"
| "truthy JNull = False"
| "truthy (JBool b) = b"
| "truthy (JNum n) = (n \<noteq> NaN \<and> n \<noteq> Fin 0)"
| "truthy (JStr s) = (s \<noteq> [])"
| "truthy (JArr xs) = True"
| "truthy (JObj kvs) = True"
| "truthy (JFunction f) = True"

text \<open>\<^verbatim>\<open>a <= b\<close> on numbers: every comparison with \<^verbatim>\<open>NaN\<close> is false.\<close>

fun num_le :: "jsnum \<Rightarrow> jsnum \<Rightarrow> bool" where
  "num_le NaN b = False"
| "num_le a NaN = False"
| "num_le NegInf b = True"
| "num_le a PosInf = True"
| "num_le (Fin a) (Fin b) = (a \<le> b)"
| "num_le PosInf b = False"
| "num_le a NegInf = False"

subsection \<open>Numerals\<close>

definition digit_char :: "nat \<Rightarrow> char" where
  "digit_char d = char_of (48 + d)"

text \<open>The decimal numeral a template literal prints for a non-negative integer.\<close>

fun dec_string :: "nat \<Rightarrow> string" where
  "dec_string n =
     (if n < 10 then [digit_char n] else dec_string (n div 10) @ [digit_char (n mod 10)])"

declare dec_string.simps [simp del]

text \<open>The value of a digit in bases up to 16, by its code unit, and of a digit string.\<close>

definition digit_of :: "nat \<Rightarrow> nat option" where
  "digit_of u =
     (if 48 \<le> u \<and> u \<le> 57 then Some (u - 48)
      else if 97 \<le> u \<and> u \<le> 102 then Some (u - 87)
      else if 65 \<le> u \<and> u \<le> 70 then Some (u - 55)
      else None)"

definition is_digit :: "nat \<Rightarrow> nat \<Rightarrow> bool" where
  "is_digit radix u = (case digit_of u of None \<Rightarrow> False | Some d \<Rightarrow> d < radix)"

definition all_digits :: "nat \<Rightarrow> ustring \<Rightarrow> bool" where
  "all_digits radix s \<longleftrightarrow> s \<noteq> [] \<and> list_all (is_digit radix) s"

fun radix_val :: "nat \<Rightarrow> ustring \<Rightarrow> nat" where
  "radix_val radix [] = 0"
| "radix_val radix (u # us) =
     (case digit_of u of None \<Rightarrow> 0 | Some d \<Rightarrow> d) * radix ^ length us + radix_val radix us"

subsection \<open>Rounding to a double\<close>

text \<open>
  A number of JavaScript is an IEEE 754 double. A real value is rounded to the
  nearest double, a tie going to the even mantissa: with \<open>2^e\<close> the power of two at
  or below the magnitude, and \<open>e\<close> no less than \<open>-1022\<close>, the doubles around the
  value are the multiples of \<open>2^(e - 52)\<close>; a result of \<open>2^1024\<close> or more is an infinity.
\<close>

fun bit_length :: "nat \<Rightarrow> nat" where
  "bit_length n = (if n = 0 then 0 else Suc (bit_length (n div 2)))"

declare bit_length.simps [simp del]

definition pow2 :: "int \<Rightarrow> rat" where
  "pow2 k = (if 0 \<le> k then 2 ^ nat k else 1 / 2 ^ nat (- k))"

text \<open>For a positive \<open>a\<close>, the \<open>e\<close> with \<open>2^e \<le> a < 2^(e + 1)\<close>.\<close>

definition binary_exponent :: "rat \<Rightarrow> int" where
  "binary_exponent a =
     (if 1 \<le> a then int (bit_length (nat \<lfloor>a\<rfloor>)) - 1
      else - int (bit_length (nat \<lceil>1 / a\<rceil> - 1)))"

definition round_half_even :: "rat \<Rightarrow> int" where
  "round_half_even x =
     (let f = \<lfloor>x\<rfloor>; d = x - of_int f
      in if d < 1 / 2 then f else if 1 / 2 < d then f + 1 else if even f then f else f + 1)"

definition to_double :: "rat \<Rightarrow> jsnum" where
  "to_double q =
     (if q = 0 then Fin 0
      else
        let a = \<bar>q\<bar>;
            e = max (binary_exponent a) (- 1022);
            ulp = pow2 (e - 52);
            r = of_int (round_half_even (a / ulp)) * ulp
        in if pow2 1024 \<le> r then (if q < 0 then NegInf else PosInf)
           else Fin (if q < 0 then - r else r))"

subsection \<open>String to number\<close>

text \<open>
  \<^verbatim>\<open>Number(s)\<close> on a string follows the StringNumericLiteral grammar: white space
  around the literal is dropped, the empty string is 0, and the literal is
  \<^verbatim>\<open>Infinity\<close> or a decimal literal with an optional sign, or an unsigned binary,
  octal or hexadecimal integer. Anything else is \<^verbatim>\<open>NaN\<close>. White space is the
  WhiteSpace and LineTerminator code points of the language.
\<close>

definition is_space :: "nat \<Rightarrow> bool" where
  "is_space u \<longleftrightarrow>
     u \<in> set [0x09, 0x0A, 0x0B, 0x0C, 0x0D, 0x20, 0xA0, 0x1680, 0x2028, 0x2029, 0x202F,
              0x205F, 0x3000, 0xFEFF] \<or>
     (0x2000 \<le> u \<and> u \<le> 0x200A)"

text \<open>\<^verbatim>\<open>String.prototype.trim\<close>, on code units and on the characters of a header.\<close>

definition js_trim :: "ustring \<Rightarrow> ustring" where
  "js_trim s = rev (dropWhile is_space (rev (dropWhile is_space s)))"

definition trim_chars :: "string \<Rightarrow> string" where
  "trim_chars s =
     rev (dropWhile (\<lambda>c. is_space (code_unit c)) (rev (dropWhile (\<lambda>c. is_space (code_unit c)) s)))"

text \<open>Cut a string at the first code unit of a given set; the cut unit is dropped.\<close>

definition cut_at :: "ustring \<Rightarrow> ustring \<Rightarrow> ustring \<times> ustring option" where
  "cut_at seps s =
     (let rest = dropWhile (\<lambda>u. u \<notin> set seps) s
      in (takeWhile (\<lambda>u. u \<notin> set seps) s, if rest = [] then None else Some (tl rest)))"

text \<open>An exponent part after the \<^verbatim>\<open>e\<close>: an optional sign and at least one digit.\<close>

definition exponent_part :: "ustring \<Rightarrow> (bool \<times> nat) option" where
  "exponent_part s =
     (case s of
        [] \<Rightarrow> None
      | u # us \<Rightarrow>
          if u = code_unit CHR ''-'' then (if all_digits 10 us then Some (True, radix_val 10 us) else None)
          else if u = code_unit CHR ''+'' then (if all_digits 10 us then Some (False, radix_val 10 us) else None)
          else if all_digits 10 s then Some (False, radix_val 10 s) else None)"

text \<open>
  An unsigned decimal literal: digits, an optional fraction, an optional exponent;
  the digits before or after the point may be missing, not both. Its value is exact.
\<close>

definition unsigned_decimal :: "ustring \<Rightarrow> rat option" where
  "unsigned_decimal s =
     (let (mant, ex) = cut_at (units ''eE'') s;
          (ip, fp) = cut_at (units ''.'') mant;
          mant_ok = (case fp of
                       None \<Rightarrow> all_digits 10 ip
                     | Some f \<Rightarrow> (ip = [] \<or> all_digits 10 ip) \<and> (f = [] \<or> all_digits 10 f)
                                 \<and> \<not> (ip = [] \<and> f = []));
          frac = (case fp of None \<Rightarrow> 0
                  | Some f \<Rightarrow> of_nat (radix_val 10 f) / 10 ^ length f);
          m = of_nat (radix_val 10 ip) + frac
      in if \<not> mant_ok then None
         else (case ex of
                 None \<Rightarrow> Some m
               | Some e \<Rightarrow>
                   (case exponent_part e of
                      None \<Rightarrow> None
                    | Some (neg, k) \<Rightarrow> Some (if neg then m / 10 ^ k else m * 10 ^ k))))"

definition non_decimal :: "ustring \<Rightarrow> nat option" where
  "non_decimal s =
     (case s of
        u0 # u1 # ds \<Rightarrow>
          if u0 \<noteq> code_unit CHR ''0'' then None
          else if u1 \<in> set (units ''xX'')
            then (if all_digits 16 ds then Some (radix_val 16 ds) else None)
          else if u1 \<in> set (units ''oO'')
            then (if all_digits 8 ds then Some (radix_val 8 ds) else None)
          else if u1 \<in> set (units ''bB'')
            then (if all_digits 2 ds then Some (radix_val 2 ds) else None)
          else None
      | _ \<Rightarrow> None)"

definition signed_decimal :: "ustring \<Rightarrow> jsnum" where
  "signed_decimal s =
     (let neg = (s \<noteq> [] \<and> hd s = code_unit CHR ''-'');
          body = (if s \<noteq> [] \<and> hd s \<in> set (units ''+-'') then tl s else s)
      in if body = units ''Infinity'' then (if neg then NegInf else PosInf)
         else (case unsigned_decimal body of
                 None \<Rightarrow> NaN
               | Some q \<Rightarrow> to_double (if neg then - q else q)))"

definition string_to_number :: "ustring \<Rightarrow> jsnum" where
  "string_to_number s =
     (let t = js_trim s
      in if t = [] then Fin 0
         else (case non_decimal t of
                 Some n \<Rightarrow> to_double (of_nat n)
               | None \<Rightarrow> signed_decimal t))"

subsection \<open>Conversion of any value to a number\<close>

text \<open>
  An object is converted through its \<^verbatim>\<open>valueOf\<close> and \<^verbatim>\<open>toString\<close>. For an object
  that came out of a JSON text the inherited \<^verbatim>\<open>valueOf\<close> returns the object itself
  and the inherited \<^verbatim>\<open>toString\<close> gives \<^verbatim>\<open>[object Object]\<close>; an own property named
  \<^verbatim>\<open>toString\<close> hides the inherited function with a value that cannot be called, and
  the conversion throws a TypeError. An array is joined with commas, its
  \<^verbatim>\<open>null\<close> elements printed as the empty string. A function is converted through
  its source text, which is no numeric literal.
\<close>

fun to_string_throws :: "jsval \<Rightarrow> bool" where
  "to_string_throws (JObj kvs) = (units ''toString'' \<in> fst ` set kvs)"
| "to_string_throws (JArr xs) = list_ex to_string_throws xs"
| "to_string_throws v = False"

text \<open>
  The number read back from the text of a joined array. Two elements or more put a
  comma into the text, which no numeric literal has. A number printed and read
  back is the same number.
\<close>

fun joined_number :: "jsval list \<Rightarrow> jsnum"
  and element_number :: "jsval \<Rightarrow> jsnum" where
  "joined_number [] = Fin 0"
| "joined_number [x] = element_number x"
| "joined_number (x # y # zs) = NaN"
| "element_number JUndefined = Fin 0"
| "element_number JNull = Fin 0"
| "element_number (JBool b) = NaN"
| "element_number (JNum n) = n"
| "element_number (JStr s) = string_to_number s"
| "element_number (JArr xs) = joined_number xs"
| "element_number (JObj kvs) = NaN"
| "element_number (JFunction f) = NaN"

text \<open>\<^verbatim>\<open>Number(value)\<close>\<close>

definition js_Number :: "jsval \<Rightarrow> js_error + jsnum" where
  "js_Number v =
     (if to_string_throws v then Inl TypeError
      else Inr (case v of
                  JUndefined \<Rightarrow> NaN
                | JNull \<Rightarrow> Fin 0
                | JBool b \<Rightarrow> Fin (if b then 1 else 0)
                | JNum n \<Rightarrow> n
                | JStr s \<Rightarrow> string_to_number s
                | JArr xs \<Rightarrow> joined_number xs
                | JObj kvs \<Rightarrow> NaN
                | JFunction f \<Rightarrow> NaN))"

text \<open>\<^verbatim>\<open>value <= bound\<close> with a number on the right: the left side is converted.\<close>

definition js_le :: "jsval \<Rightarrow> jsnum \<Rightarrow> js_error + bool" where
  "js_le v bound = (case js_Number v of Inl e \<Rightarrow> Inl e | Inr n \<Rightarrow> Inr (num_le n bound))"

subsection \<open>Property reads\<close>

text \<open>
  \<^verbatim>\<open>data[field]\<close>. Reading a property of \<^verbatim>\<open>undefined\<close> or \<^verbatim>\<open>null\<close> throws. Any other
  value gives its own property of that name: an object what \<^verbatim>\<open>JSON.parse\<close> put
  there, a string and an array their \<^verbatim>\<open>length\<close> and their indices. A name that is
  not an own property is looked up along the prototypes, which belong to the
  runtime and not to this repository: the runtime is the function that tells what
  a value inherits under a name, if anything. The members of a function are all
  taken from the runtime.
\<close>

type_synonym runtime = "jsval \<Rightarrow> string \<Rightarrow> jsval option"

definition index_of :: "string \<Rightarrow> nat option" where
  "index_of field =
     (if all_digits 10 (units field) \<and> dec_string (radix_val 10 (units field)) = field
      then Some (radix_val 10 (units field)) else None)"

fun own_property :: "jsval \<Rightarrow> string \<Rightarrow> jsval option" where
  "own_property (JObj kvs) field = map_of kvs (units field)"
| "own_property (JStr s) field =
     (if field = ''length'' then Some (JNum (Fin (of_nat (length s))))
      else (case index_of field of
              None \<Rightarrow> None
            | Some i \<Rightarrow> if i < length s then Some (JStr [s ! i]) else None))"
| "own_property (JArr xs) field =
     (if field = ''length'' then Some (JNum (Fin (of_nat (length xs))))
      else (case index_of field of
              None \<Rightarrow> None
            | Some i \<Rightarrow> if i < length xs then Some (xs ! i) else None))"
| "own_property v field = None"

definition js_get :: "runtime \<Rightarrow> jsval \<Rightarrow> string \<Rightarrow> js_error + jsval" where
  "js_get rt v field =
     (if v = JUndefined \<or> v = JNull then Inl TypeError
      else Inr (case own_property v field of
                  Some x \<Rightarrow> x
                | None \<Rightarrow> (case rt v field of Some x \<Rightarrow> x | None \<Rightarrow> JUndefined)))"

subsection \<open>Conversion to a string, and \<^verbatim>\<open>parseInt\<close>\<close>

text \<open>
  The text of a value. The text of a number is its shortest decimal form that reads
  back as the same double, a printing that is not written out here: the printing
  of numbers is an argument. The text is taken only of values whose conversion
  does not throw.
\<close>

fun join_commas :: "ustring list \<Rightarrow> ustring" where
  "join_commas [] = []"
| "join_commas [s] = s"
| "join_commas (s # t # ts) = s @ units '','' @ join_commas (t # ts)"

fun to_text :: "(jsnum \<Rightarrow> ustring) \<Rightarrow> jsval \<Rightarrow> ustring" where
  "to_text print JUndefined = units ''undefined''"
| "to_text print JNull = units ''null''"
| "to_text print (JBool b) = (if b then units ''true'' else units ''false'')"
| "to_text print (JNum n) = print n"
| "to_text print (JStr s) = s"
| "to_text print (JArr xs) =
     join_commas (map (\<lambda>x. if x = JUndefined \<or> x = JNull then [] else to_text print x) xs)"
| "to_text print (JObj kvs) = units ''[object Object]''"
| "to_text print (JFunction f) = units (''function '' @ f @ ''() { [native code] }'')"

text \<open>
  \<^verbatim>\<open>parseInt(text)\<close> without a radix: leading white space, an optional sign, an optional
  \<^verbatim>\<open>0x\<close>, then as many digits as there are; no digit at all is \<^verbatim>\<open>NaN\<close>.
\<close>

definition parse_int_text :: "ustring \<Rightarrow> jsnum" where
  "parse_int_text s =
     (let s1 = dropWhile is_space s;
          neg = (s1 \<noteq> [] \<and> hd s1 = code_unit CHR ''-'');
          s2 = (if s1 \<noteq> [] \<and> hd s1 \<in> set (units ''+-'') then tl s1 else s1);
          hex = (take 2 s2 = units ''0x'' \<or> take 2 s2 = units ''0X'');
          radix = (if hex then 16 else 10);
          s3 = (if hex then drop 2 s2 else s2);
          ds = takeWhile (is_digit radix) s3
      in if ds = [] then NaN
         else to_double (if neg then - of_nat (radix_val radix ds) else of_nat (radix_val radix ds)))"

definition parseInt :: "(jsnum \<Rightarrow> ustring) \<Rightarrow> jsval \<Rightarrow> js_error + jsnum" where
  "parseInt print v =
     (if to_string_throws v then Inl TypeError else Inr (parse_int_text (to_text print v)))"

section \<open>Rate limiter (security utilities, the third text of api/_lib/env-validator.js)\<close>

text \<open>
  \<^verbatim>\<open>const rateLimitStore = new Map();\<close>
  A JavaScript \<^verbatim>\<open>Map\<close> iterates in insertion order; \<^verbatim>\<open>set\<close> on a key that is present
  keeps its position, \<^verbatim>\<open>set\<close> on a new key appends. The store is the list of entries in
  that order: \<open>AList.update\<close> is \<^verbatim>\<open>set\<close>, \<open>map_of\<close> is \<^verbatim>\<open>get\<close>, \<open>AList.delete\<close> is
  \<^verbatim>\<open>delete\<close>, \<open>length\<close> is \<^verbatim>\<open>size\<close> and the key of the head is
  \<^verbatim>\<open>keys().next().value\<close>.
\<close>

type_synonym rate_store = "(string \<times> nat) list"

text \<open>
  \<^verbatim>\<open>Math.floor(now / windowMs)\<close> printed into the key. Times and window sizes are
  whole milliseconds, and the quotient is printed in plain digits, as JavaScript
  prints every whole number below \<open>10^21\<close>. A window of 0 divides by zero, which in
  JavaScript is \<^verbatim>\<open>Infinity\<close> (or \<^verbatim>\<open>NaN\<close> for 0/0) and not an error.
\<close>

definition window_label :: "nat \<Rightarrow> nat \<Rightarrow> string" where
  "window_label now windowMs =
     (if windowMs = 0 then (if now = 0 then ''NaN'' else ''Infinity'')
      else dec_string (now div windowMs))"

definition rate_key :: "string \<Rightarrow> nat \<Rightarrow> nat \<Rightarrow> string" where
  "rate_key identifier now windowMs = identifier @ '':'' @ window_label now windowMs"

record rate_result =
  allowed :: bool
  retryAfter :: nat
  remaining :: nat

definition store_ceiling :: nat where
  "store_ceiling = 10000"

text \<open>\<^verbatim>\<open>rateLimitStore.get(key) || 0\<close>\<close>

definition store_count :: "rate_store \<Rightarrow> string \<Rightarrow> nat" where
  "store_count store k = (case map_of store k of None \<Rightarrow> 0 | Some c \<Rightarrow> c)"

text \<open>The clean-up step: when the map has grown past the ceiling, delete its first key.\<close>

definition evict :: "rate_store \<Rightarrow> rate_store" where
  "evict store =
     (if length store > store_ceiling then AList.delete (fst (hd store)) store else store)"

text \<open>
  \<open>rateLimit\<close> reads the clock and mutates the module's map; here the clock value and
  the map are arguments and the map after the call is returned with the result.
\<close>

definition rateLimit ::
  "nat \<Rightarrow> rate_store \<Rightarrow> string \<Rightarrow> nat \<Rightarrow> nat \<Rightarrow> rate_result \<times> rate_store" where
  "rateLimit now store identifier maxRequests windowMs =
     (let key = rate_key identifier now windowMs;
          requestCount = store_count store key + 1;
          store1 = AList.update key requestCount store;
          store2 = evict store1;
          ok = (requestCount \<le> maxRequests);
          retry = (if ok then 0 else (windowMs + 999) div 1000)
      in (\<lparr>allowed = ok, retryAfter = retry, remaining = maxRequests - requestCount\<rparr>,
          store2))"

text \<open>A call as the limiter sees it: the clock reading and the three arguments.\<close>

record rate_call =
  call_now :: nat
  call_id :: string
  call_max :: nat
  call_window :: nat

definition rate_step :: "rate_store \<Rightarrow> rate_call \<Rightarrow> rate_result \<times> rate_store" where
  "rate_step store c = rateLimit (call_now c) store (call_id c) (call_max c) (call_window c)"

text \<open>The store after a sequence of calls, and the result of every call in order.\<close>

fun run_store :: "rate_store \<Rightarrow> rate_call list \<Rightarrow> rate_store" where
  "run_store store [] = store"
| "run_store store (c # cs) = run_store (snd (rate_step store c)) cs"

fun run_results :: "rate_store \<Rightarrow> rate_call list \<Rightarrow> rate_result list" where
  "run_results store [] = []"
| "run_results store (c # cs) =
     fst (rate_step store c) # run_results (snd (rate_step store c)) cs"

text \<open>The key a call reads and writes.\<close>

definition call_key :: "rate_call \<Rightarrow> string" where
  "call_key c = rate_key (call_id c) (call_now c) (call_window c)"

text \<open>Calls of one client with one limit and one window size, at the given times.\<close>

definition window_calls :: "string \<Rightarrow> nat \<Rightarrow> nat \<Rightarrow> nat list \<Rightarrow> rate_call list" where
  "window_calls identifier maxRequests windowMs ts =
     map (\<lambda>t. \<lparr>call_now = t, call_id = identifier, call_max = maxRequests,
                call_window = windowMs\<rparr>) ts"

text \<open>
  A crowd of clients inside one hour window, each named by a number: the call of
  client \<open>n\<close>, and the calls of the clients from \<open>m\<close> up to \<open>n - 1\<close> in turn.
\<close>

definition flood_call :: "nat \<Rightarrow> rate_call" where
  "flood_call n = \<lparr>call_now = 1700000000000, call_id = dec_string n, call_max = 100,
                    call_window = 3600000\<rparr>"

definition flood :: "nat \<Rightarrow> nat \<Rightarrow> rate_call list" where
  "flood m n = map flood_call [m..<n]"

section \<open>Client address and input validation (the same security utilities)\<close>

text \<open>
  \<^verbatim>\<open>getClientIp\<close> reads two headers and the socket address of the request.
\<close>

record request =
  req_method :: string
  req_headers :: "(string \<times> string) list"
  remoteAddress :: "string option"
  req_query :: "(string \<times> string) list"
  req_body :: jsval

text \<open>\<^verbatim>\<open>a || b\<close> with a string that may be undefined on the left: an empty string is falsy.\<close>

definition or_default :: "string option \<Rightarrow> string \<Rightarrow> string" where
  "or_default a b = (case a of None \<Rightarrow> b | Some s \<Rightarrow> if s = [] then b else s)"

definition getClientIp :: "request \<Rightarrow> string" where
  "getClientIp req =
     (let forwarded = map_option (\<lambda>h. trim_chars (takeWhile (\<lambda>c. c \<noteq> CHR '','') h))
                        (map_of (req_headers req) ''x-forwarded-for'')
      in or_default forwarded
           (or_default (map_of (req_headers req) ''x-real-ip'')
              (or_default (remoteAddress req) ''unknown'')))"

text \<open>
  A schema is the list of its entries in the order \<^verbatim>\<open>Object.entries\<close> yields them.
  A rule that is absent, or a length of 0, is falsy and switches its check off.
\<close>

datatype rule_type = TString | TNumber | TBoolean | TArray | TOther

record rules =
  required :: bool
  rtype :: "rule_type option"
  minLength :: "nat option"
  maxLength :: "nat option"

type_synonym schema = "(string \<times> rules) list"

type_synonym sanitized = "(string \<times> jsval) list"

record validation =
  isValid :: bool
  errors :: "string list"
  data :: sanitized

text \<open>\<^verbatim>\<open>value === undefined || value === null || value === ''\<close>\<close>

definition is_blank :: "jsval \<Rightarrow> bool" where
  "is_blank v \<longleftrightarrow> v = JUndefined \<or> v = JNull \<or> v = JStr []"

text \<open>
  The \<^verbatim>\<open>switch\<close> on the rule's type. A mismatch pushes a message and goes to the next
  field; the number case stores the converted value and goes to the next field too;
  the other cases fall out of the switch to the length checks.
\<close>

datatype type_outcome = Mismatch string | NumberStored jsnum | Proceed

definition type_check :: "string \<Rightarrow> rule_type option \<Rightarrow> jsval \<Rightarrow> js_error + type_outcome" where
  "type_check field t v =
     (case t of
        None \<Rightarrow> Inr Proceed
      | Some TString \<Rightarrow>
          Inr (if typeof v \<noteq> TyString then Mismatch (field @ '' must be a string'') else Proceed)
      | Some TNumber \<Rightarrow>
          (case js_Number v of
             Inl e \<Rightarrow> Inl e
           | Inr n \<Rightarrow>
               Inr (if typeof v \<noteq> TyNumber \<and> isNaN n
                    then Mismatch (field @ '' must be a number'') else NumberStored n))
      | Some TBoolean \<Rightarrow>
          Inr (if typeof v \<noteq> TyBoolean then Mismatch (field @ '' must be a boolean'') else Proceed)
      | Some TArray \<Rightarrow>
          Inr (if \<not> isArray v then Mismatch (field @ '' must be an array'') else Proceed)
      | Some TOther \<Rightarrow> Inr Proceed)"

text \<open>
  \<^verbatim>\<open>rules.minLength && value.length < rules.minLength\<close>, then the same for the
  maximum: both messages can be pushed for one field.
\<close>

definition length_errors :: "string \<Rightarrow> rules \<Rightarrow> ustring \<Rightarrow> string list" where
  "length_errors field r s =
     (case minLength r of
        None \<Rightarrow> []
      | Some m \<Rightarrow>
          if m \<noteq> 0 \<and> length s < m
          then [field @ '' must be at least '' @ dec_string m @ '' characters''] else []) @
     (case maxLength r of
        None \<Rightarrow> []
      | Some m \<Rightarrow>
          if m \<noteq> 0 \<and> m < length s
          then [field @ '' must be at most '' @ dec_string m @ '' characters''] else [])"

text \<open>
  One turn of the loop over the schema, on the errors and the sanitized object
  collected so far. Reading the field and converting it to a number can throw. The
  runtime is where the read looks for what the input inherits.
\<close>

definition validate_entry ::
  "runtime \<Rightarrow> jsval \<Rightarrow> string \<times> rules \<Rightarrow> string list \<times> sanitized \<Rightarrow>
     js_error + (string list \<times> sanitized)" where
  "validate_entry rt input entry acc =
     (let (field, r) = entry; (errs, san) = acc
      in case js_get rt input field of
           Inl e \<Rightarrow> Inl e
         | Inr v \<Rightarrow>
             if required r \<and> is_blank v then Inr (errs @ [field @ '' is required''], san)
             else if \<not> required r \<and> is_blank v then Inr (errs, san)
             else (case type_check field (rtype r) v of
                     Inl e \<Rightarrow> Inl e
                   | Inr (Mismatch msg) \<Rightarrow> Inr (errs @ [msg], san)
                   | Inr (NumberStored n) \<Rightarrow> Inr (errs, AList.update field (JNum n) san)
                   | Inr Proceed \<Rightarrow>
                       (case v of
                          JStr s \<Rightarrow>
                            Inr (errs @ length_errors field r s,
                                 AList.update field (JStr (js_trim s)) san)
                        | _ \<Rightarrow> Inr (errs, AList.update field v san))))"

fun validate_loop ::
  "runtime \<Rightarrow> jsval \<Rightarrow> schema \<Rightarrow> string list \<times> sanitized \<Rightarrow>
     js_error + (string list \<times> sanitized)" where
  "validate_loop rt input [] acc = Inr acc"
| "validate_loop rt input (entry # rest) acc =
     (case validate_entry rt input entry acc of
        Inl e \<Rightarrow> Inl e
      | Inr acc' \<Rightarrow> validate_loop rt input rest acc')"

definition validateInput :: "runtime \<Rightarrow> jsval \<Rightarrow> schema \<Rightarrow> js_error + validation" where
  "validateInput rt input sch =
     (case validate_loop rt input sch ([], []) of
        Inl e \<Rightarrow> Inl e
      | Inr (errs, san) \<Rightarrow> Inr \<lparr>isValid = (errs = []), errors = errs, data = san\<rparr>)"

text \<open>The messages one schema entry adds, whatever was collected before it.\<close>

definition entry_errors :: "runtime \<Rightarrow> jsval \<Rightarrow> string \<times> rules \<Rightarrow> string list" where
  "entry_errors rt input entry =
     (case validate_entry rt input entry ([], []) of Inl e \<Rightarrow> [] | Inr (errs, san) \<Rightarrow> errs)"

section \<open>The view-ingestion endpoint (api/bookshelf/track-view.js)\<close>

text \<open>
  Modelled from the spec: \<^verbatim>\<open>HTTP_STATUS\<close> of api/_lib/errors.js, which is not among the
  sources. The spec names HTTP 200 for acceptance and 400, 429 and 405 for the
  rejections; the internal error is 500, the status the listing endpoint writes out
  for the same case.
\<close>

definition HTTP_OK :: nat where "HTTP_OK = 200"
definition HTTP_BAD_REQUEST :: nat where "HTTP_BAD_REQUEST = 400"
definition HTTP_METHOD_NOT_ALLOWED :: nat where "HTTP_METHOD_NOT_ALLOWED = 405"
definition HTTP_TOO_MANY_REQUESTS :: nat where "HTTP_TOO_MANY_REQUESTS = 429"
definition HTTP_INTERNAL_ERROR :: nat where "HTTP_INTERNAL_ERROR = 500"

text \<open>What a logger call or a response can carry about a failure.\<close>

datatype failure = StorageError string | Exception js_error

text \<open>The listing the catalog endpoint answers with.\<close>

record listing =
  books :: "nat list"
  page :: nat
  limit :: nat
  total :: nat
  pages :: nat
  total_books :: nat
  total_authors :: nat

text \<open>
  Modelled from the spec: the error builders of api/_lib/errors.js, which is not among
  the sources. Each builder is a constructor holding the arguments the handler passes
  to it: the spec calls their results structured error objects, distinct from the
  success envelope. The other bodies are the object literals of the handlers.
\<close>

datatype body =
    NoBody
  | MethodNotAllowedError string
  | RateLimitError nat
  | ValidationError string "string list option"
  | InternalError bool js_error
  | Tracked bool
  | Failure string
  | Listing listing

record response =
  status :: nat
  body :: body

text \<open>
  What the insert of a row does, as the handler sees it: it resolves without an error,
  resolves with an error object, or throws.
\<close>

datatype insert_outcome = Inserted | InsertError string | InsertThrows js_error

text \<open>
  What a request finds around it: the clock, the datastore's answer to an insert of
  a given \<^verbatim>\<open>book_id\<close>, \<^verbatim>\<open>NODE_ENV\<close>, and the runtime with its prototypes.
\<close>

record env =
  clock :: nat
  db_insert :: "jsval \<Rightarrow> insert_outcome"
  node_env :: "string option"
  runtime :: runtime

text \<open>
  What requests change: the limiter's map, the rows of \<^verbatim>\<open>bookshelf_book_views\<close> (the
  \<^verbatim>\<open>book_id\<close> of each row inserted) and the error log. The rows of
  \<^verbatim>\<open>bookshelf_books\<close> are there to be read.
\<close>

record server =
  rateLimitStore :: rate_store
  book_views :: "jsval list"
  error_log :: "(string \<times> failure) list"
  catalog :: "nat list"

definition track_view_schema :: schema where
  "track_view_schema =
     [(''book_id'', \<lparr>required = True, rtype = Some TNumber, minLength = None, maxLength = None\<rparr>)]"

text \<open>
  The body of the \<^verbatim>\<open>try\<close> block: a response and the state after it, or the exception
  thrown. Nothing is written before a throw.
\<close>

definition track_view_try :: "env \<Rightarrow> request \<Rightarrow> server \<Rightarrow> js_error + (response \<times> server)" where
  "track_view_try e req srv =
     (case validateInput (runtime e) (req_body req) track_view_schema of
        Inl x \<Rightarrow> Inl x
      | Inr validation \<Rightarrow>
          if \<not> isValid validation
          then Inr (\<lparr>status = HTTP_BAD_REQUEST,
                     body = ValidationError ''Validation failed'' (Some (errors validation))\<rparr>, srv)
          else
            let bookId = (case map_of (data validation) ''book_id'' of
                            None \<Rightarrow> JUndefined | Some v \<Rightarrow> v)
            in case js_le bookId (Fin 0) of
                 Inl x \<Rightarrow> Inl x
               | Inr True \<Rightarrow>
                   Inr (\<lparr>status = HTTP_BAD_REQUEST,
                         body = ValidationError ''book_id must be a positive number'' None\<rparr>, srv)
               | Inr False \<Rightarrow>
                   (case db_insert e bookId of
                      InsertThrows x \<Rightarrow> Inl x
                    | InsertError err \<Rightarrow>
                        Inr (\<lparr>status = HTTP_OK, body = Tracked False\<rparr>,
                             srv\<lparr>error_log := error_log srv @
                                   [(''Failed to track view'', StorageError err)]\<rparr>)
                    | Inserted \<Rightarrow>
                        Inr (\<lparr>status = HTTP_OK, body = Tracked True\<rparr>,
                             srv\<lparr>book_views := book_views srv @ [bookId]\<rparr>)))"

text \<open>
  The handler of the first text of the file. The headers that \<^verbatim>\<open>setCorsHeaders\<close> and
  \<^verbatim>\<open>setSecurityHeaders\<close> put on every response are left out of the response record.
\<close>

definition track_view_handler :: "env \<Rightarrow> request \<Rightarrow> server \<Rightarrow> response \<times> server" where
  "track_view_handler e req srv =
     (if req_method req = ''OPTIONS'' then (\<lparr>status = 200, body = NoBody\<rparr>, srv)
      else if req_method req \<noteq> ''POST''
      then (\<lparr>status = HTTP_METHOD_NOT_ALLOWED, body = MethodNotAllowedError ''POST''\<rparr>, srv)
      else
        let clientIp = getClientIp req;
            (rateLimitResult, store') = rateLimit (clock e) (rateLimitStore srv) clientIp 100 3600000;
            srv1 = srv\<lparr>rateLimitStore := store'\<rparr>
        in if \<not> allowed rateLimitResult
           then (\<lparr>status = HTTP_TOO_MANY_REQUESTS,
                  body = RateLimitError (retryAfter rateLimitResult)\<rparr>, srv1)
           else (case track_view_try e req srv1 of
                   Inr out \<Rightarrow> out
                 | Inl error \<Rightarrow>
                     (\<lparr>status = HTTP_INTERNAL_ERROR,
                       body = InternalError (node_env e = Some ''development'') error\<rparr>,
                      srv1\<lparr>error_log := error_log srv1 @
                             [(''Error tracking view'', Exception error)]\<rparr>)))"

text \<open>
  The handler of the second text of the file, without limiter and schema. Its
  \<^verbatim>\<open>parseInt\<close> prints a number before reading it; the printing of numbers is an
  argument, as it is for \<open>parseInt\<close>.
\<close>

definition track_view_basic_try ::
  "(jsnum \<Rightarrow> ustring) \<Rightarrow> env \<Rightarrow> request \<Rightarrow> server \<Rightarrow> js_error + (response \<times> server)" where
  "track_view_basic_try print e req srv =
     (case js_get (runtime e) (req_body req) ''book_id'' of
        Inl x \<Rightarrow> Inl x
      | Inr book_id \<Rightarrow>
          if \<not> truthy book_id
          then Inr (\<lparr>status = 400, body = Failure ''Invalid book_id. Must be a number.''\<rparr>, srv)
          else (case parseInt print book_id of
                  Inl x \<Rightarrow> Inl x
                | Inr bookId \<Rightarrow>
                    if isNaN bookId
                    then Inr (\<lparr>status = 400,
                               body = Failure ''Invalid book_id. Must be a number.''\<rparr>, srv)
                    else (case db_insert e (JNum bookId) of
                            InsertThrows x \<Rightarrow> Inl x
                          | InsertError err \<Rightarrow>
                              Inr (\<lparr>status = 200, body = Tracked False\<rparr>,
                                   srv\<lparr>error_log := error_log srv @
                                         [(''Failed to track view:'', StorageError err)]\<rparr>)
                          | Inserted \<Rightarrow>
                              Inr (\<lparr>status = 200, body = Tracked True\<rparr>,
                                   srv\<lparr>book_views := book_views srv @ [JNum bookId]\<rparr>))))"

definition track_view_basic_handler ::
  "(jsnum \<Rightarrow> ustring) \<Rightarrow> env \<Rightarrow> request \<Rightarrow> server \<Rightarrow> response \<times> server" where
  "track_view_basic_handler print e req srv =
     (if req_method req \<noteq> ''POST''
      then (\<lparr>status = 405, body = Failure ''Method not allowed. Use POST.''\<rparr>, srv)
      else (case track_view_basic_try print e req srv of
              Inr out \<Rightarrow> out
            | Inl error \<Rightarrow>
                (\<lparr>status = 200, body = Tracked False\<rparr>,
                 srv\<lparr>error_log := error_log srv @
                       [(''Error tracking view:'', Exception error)]\<rparr>)))"

section \<open>The catalog endpoint (api/bookshelf/books.js)\<close>

text \<open>
  The handler answers every GET with the same empty listing; it reads neither the
  query string nor the store. Nothing in its \<^verbatim>\<open>try\<close> block throws.
\<close>

definition books_handler :: "request \<Rightarrow> server \<Rightarrow> response \<times> server" where
  "books_handler req srv =
     (if req_method req \<noteq> ''GET''
      then (\<lparr>status = 405, body = Failure ''Method not allowed. Use GET.''\<rparr>, srv)
      else (\<lparr>status = 200,
             body = Listing \<lparr>books = [], page = 1, limit = 20, total = 0, pages = 0,
                              total_books = 0, total_authors = 0\<rparr>\<rparr>, srv))"

section \<open>The view observer of the page (js/bookshelf.js)\<close>

text \<open>
  An entry handed to the observer's callback: whether the card intersects at the
  observer's threshold of 0.5, and \<^verbatim>\<open>entry.target.dataset.bookId\<close>, a string, or
  undefined when the card has no such attribute.
\<close>

record entry =
  isIntersecting :: bool
  bookId :: "ustring option"

text \<open>
  A call of \<^verbatim>\<open>fetch\<close>. The body is the value that \<^verbatim>\<open>JSON.stringify\<close> writes and the
  endpoint parses back.
\<close>

record fetch_call =
  url :: string
  fetch_method :: string
  fetch_body :: jsval

text \<open>
  The page: the set \<^verbatim>\<open>viewedBooks\<close>, the calls of \<^verbatim>\<open>fetch\<close> made so far and what was
  written with \<^verbatim>\<open>console.debug\<close>. A reload starts again from \<open>fresh_page\<close>.
\<close>

record page_state =
  viewedBooks :: "ustring set"
  fetched :: "fetch_call list"
  debug_log :: "(string \<times> js_error) list"

definition fresh_page :: page_state where
  "fresh_page = \<lparr>viewedBooks = {}, fetched = [], debug_log = []\<rparr>"

text \<open>
  \<^verbatim>\<open>trackBookView\<close>: one \<^verbatim>\<open>fetch\<close>; when it fails the error is caught and logged. The
  network is the function that tells which calls fail.
\<close>

definition trackBookView ::
  "(fetch_call \<Rightarrow> js_error option) \<Rightarrow> ustring \<Rightarrow> page_state \<Rightarrow> page_state" where
  "trackBookView net b pg =
     (let call = \<lparr>url = ''/api/bookshelf/track-view'', fetch_method = ''POST'',
                  fetch_body = JObj [(units ''book_id'', JStr b)]\<rparr>;
          pg1 = pg\<lparr>fetched := fetched pg @ [call]\<rparr>
      in case net call of
           None \<Rightarrow> pg1
         | Some err \<Rightarrow> pg1\<lparr>debug_log := debug_log pg1 @ [(''Failed to track view:'', err)]\<rparr>)"

text \<open>The body of the \<^verbatim>\<open>forEach\<close> in the observer's callback.\<close>

definition observe_entry ::
  "(fetch_call \<Rightarrow> js_error option) \<Rightarrow> page_state \<Rightarrow> entry \<Rightarrow> page_state" where
  "observe_entry net pg en =
     (if isIntersecting en
      then (case bookId en of
              None \<Rightarrow> pg
            | Some b \<Rightarrow>
                if b \<noteq> [] \<and> b \<notin> viewedBooks pg
                then trackBookView net b (pg\<lparr>viewedBooks := insert b (viewedBooks pg)\<rparr>)
                else pg)
      else pg)"

definition viewObserver :: "(fetch_call \<Rightarrow> js_error option) \<Rightarrow> page_state \<Rightarrow> entry list \<Rightarrow> page_state" where
  "viewObserver net pg entries = foldl (observe_entry net) pg entries"

text \<open>A page session: the callback runs once for every batch of entries the browser reports.\<close>

definition session :: "(fetch_call \<Rightarrow> js_error option) \<Rightarrow> entry list list \<Rightarrow> page_state" where
  "session net batches = foldl (viewObserver net) fresh_page batches"

text \<open>The identifier an ingestion call was made for, read from its body.\<close>

definition call_book :: "fetch_call \<Rightarrow> jsval" where
  "call_book c =
     (case own_property (fetch_body c) ''book_id'' of None \<Rightarrow> JUndefined | Some v \<Rightarrow> v)"

text \<open>The number of ingestion calls a page has made for an identifier.\<close>

definition calls_for :: "ustring \<Rightarrow> page_state \<Rightarrow> nat" where
  "calls_for b pg = length (filter (\<lambda>c. call_book c = JStr b) (fetched pg))"

text \<open>The call \<^verbatim>\<open>trackBookView\<close> makes for an identifier.\<close>

definition track_call :: "ustring \<Rightarrow> fetch_call" where
  "track_call b = \<lparr>url = ''/api/bookshelf/track-view'', fetch_method = ''POST'',
                   fetch_body = JObj [(units ''book_id'', JStr b)]\<rparr>"

section \<open>Sample surroundings\<close>

text \<open>
  A datastore that takes every row, one that answers every insert with an error and
  one whose client throws; a runtime in which every value inherits the functions of
  \<^verbatim>\<open>Object.prototype\<close>; a network on which every call gets through; a server that has
  seen no request yet; a request with a given method and body.
\<close>

definition healthy_db :: "jsval \<Rightarrow> insert_outcome" where
  "healthy_db v = Inserted"

definition failing_db :: "jsval \<Rightarrow> insert_outcome" where
  "failing_db v = InsertError ''connection refused''"

definition throwing_db :: "jsval \<Rightarrow> insert_outcome" where
  "throwing_db v = InsertThrows (Thrown ''fetch failed'')"

definition object_prototype :: "string list" where
  "object_prototype =
     [''constructor'', ''hasOwnProperty'', ''isPrototypeOf'', ''propertyIsEnumerable'',
      ''toLocaleString'', ''toString'', ''valueOf'', ''__defineGetter__'', ''__defineSetter__'',
      ''__lookupGetter__'', ''__lookupSetter__'']"

definition plain_runtime :: runtime where
  "plain_runtime v field =
     (if field \<in> set object_prototype then Some (JFunction field) else None)"

text \<open>The text of a number, for whole numbers below \<open>10^21\<close> and the special values.\<close>

definition whole_text :: "jsnum \<Rightarrow> ustring" where
  "whole_text n =
     units (case n of
              NaN \<Rightarrow> ''NaN''
            | PosInf \<Rightarrow> ''Infinity''
            | NegInf \<Rightarrow> ''-Infinity''
            | Fin q \<Rightarrow> (if q < 0 then ''-'' else []) @ dec_string (nat \<lfloor>\<bar>q\<bar>\<rfloor>))"

definition online :: "fetch_call \<Rightarrow> js_error option" where
  "online c = None"

definition sample_env :: "(jsval \<Rightarrow> insert_outcome) \<Rightarrow> env" where
  "sample_env db =
     \<lparr>clock = 1700000000000, db_insert = db, node_env = Some ''production'',
      runtime = plain_runtime\<rparr>"

definition new_server :: "nat list \<Rightarrow> server" where
  "new_server bs = \<lparr>rateLimitStore = [], book_views = [], error_log = [], catalog = bs\<rparr>"

definition sample_request :: "string \<Rightarrow> jsval \<Rightarrow> request" where
  "sample_request m b =
     \<lparr>req_method = m, req_headers = [(''x-forwarded-for'', ''203.0.113.7, 10.0.0.1'')],
      remoteAddress = None, req_query = [(''page'', ''1''), (''limit'', ''20'')], req_body = b\<rparr>"

text \<open>A schema of two fields, the second with both length rules.\<close>

definition two_field_schema :: schema where
  "two_field_schema =
     [(''book_id'', \<lparr>required = True, rtype = Some TNumber, minLength = None, maxLength = None\<rparr>),
      (''title'', \<lparr>required = True, rtype = Some TString, minLength = Some 5,
                  maxLength = Some 3\<rparr>)]"

text \<open>The state a request leaves behind when all it did was pass the limiter.\<close>

definition counted :: "env \<Rightarrow> request \<Rightarrow> server \<Rightarrow> server" where
  "counted e req srv =
     srv\<lparr>rateLimitStore :=
           snd (rateLimit (clock e) (rateLimitStore srv) (getClientIp req) 100 3600000)\<rparr>"

definition passes_limiter :: "env \<Rightarrow> request \<Rightarrow> server \<Rightarrow> bool" where
  "passes_limiter e req srv \<longleftrightarrow>
     allowed (fst (rateLimit (clock e) (rateLimitStore srv) (getClientIp req) 100 3600000))"

section \<open>Properties of the rate limiter\<close>

lemma radix_val_snoc:
  "radix_val r (s @ [u]) = r * radix_val r s + (case digit_of u of None \<Rightarrow> 0 | Some d \<Rightarrow> d)"
  by (induction s) (simp_all add: algebra_simps)

lemma digit_of_digit_char: "d < 10 \<Longrightarrow> digit_of (code_unit (digit_char d)) = Some d"
  by (simp add: digit_char_def digit_of_def code_unit_def)

lemma radix_val_dec_string: "radix_val 10 (units (dec_string n)) = n"
proof (induction n rule: dec_string.induct)
  case (1 n)
  show ?case
  proof (cases "n < 10")
    case True
    then show ?thesis by (simp add: dec_string.simps [of n] units_def digit_of_digit_char)
  next
    case False
    with 1 show ?thesis
      by (simp add: dec_string.simps [of n] units_def radix_val_snoc digit_of_digit_char)
  qed
qed

lemma dec_string_inj: "dec_string m = dec_string n \<Longrightarrow> m = n"
  by (metis radix_val_dec_string)

lemma update_fresh: "k \<notin> fst ` set s \<Longrightarrow> AList.update k v s = s @ [(k, v)]"
  by (induction s) auto

lemma update_length_le: "length (AList.update k v s) \<le> Suc (length s)"
  by (induction s) auto

lemma delete_head_shorter: "s \<noteq> [] \<Longrightarrow> length (AList.delete (fst (hd s)) s) < length s"
proof -
  assume "s \<noteq> []"
  then obtain p ps where s: "s = p # ps" by (cases s) auto
  have "length (AList.delete (fst p) ps) \<le> length ps" by (rule length_delete_le)
  with s show ?thesis by (cases p) simp
qed

lemma evict_length:
  assumes "length s \<le> Suc store_ceiling" shows "length (evict s) \<le> store_ceiling"
proof (cases "length s > store_ceiling")
  case True
  then have "s \<noteq> []" by auto
  from delete_head_shorter [OF this] True assms show ?thesis
    by (simp add: evict_def)
next
  case False
  then show ?thesis by (simp add: evict_def)
qed

lemma rateLimit_length:
  "length s \<le> store_ceiling \<Longrightarrow> length (snd (rateLimit now s i m w)) \<le> store_ceiling"
  using update_length_le [of "rate_key i now w" "store_count s (rate_key i now w) + 1" s]
  by (simp add: rateLimit_def Let_def evict_length)

lemma run_store_length:
  "length s \<le> store_ceiling \<Longrightarrow> length (run_store s cs) \<le> store_ceiling"
  by (induction cs arbitrary: s) (simp_all add: rate_step_def rateLimit_length)

lemma delete_head_distinct:
  "distinct (map fst s) \<Longrightarrow> s \<noteq> [] \<Longrightarrow> AList.delete (fst (hd s)) s = tl s"
  by (cases s) (auto simp: AList.delete_eq filter_id_conv rev_image_eqI)

lemma update_length:
  "length (AList.update k v s) = (if k \<in> fst ` set s then length s else Suc (length s))"
  by (induction s) auto

lemma update_hd: "s \<noteq> [] \<Longrightarrow> fst (hd (AList.update k v s)) = fst (hd s)"
  by (cases s) auto

lemma store_count_update:
  "store_count (AList.update k v s) k' = (if k' = k then v else store_count s k')"
  by (simp add: store_count_def update_conv')

lemma store_count_delete:
  "store_count (AList.delete k s) k' = (if k' = k then 0 else store_count s k')"
  by (simp add: store_count_def delete_conv')

lemma store_count_fresh: "k \<notin> fst ` set s \<Longrightarrow> store_count s k = 0"
proof -
  assume "k \<notin> fst ` set s"
  then have "map_of s k = None" by (simp add: map_of_eq_None_iff)
  then show ?thesis by (simp add: store_count_def)
qed

text \<open>When the clean-up fires: the key is new and the store was full.\<close>

lemma evict_fires_iff:
  assumes "length s \<le> store_ceiling"
  shows "length (AList.update k v s) > store_ceiling \<longleftrightarrow>
           k \<notin> fst ` set s \<and> length s = store_ceiling"
  using assms by (auto simp: update_length)

lemma store_count_rateLimit:
  assumes "length s \<le> store_ceiling"
  shows "store_count (snd (rateLimit now s i m w)) k =
           (if k = rate_key i now w then store_count s k + 1
            else if rate_key i now w \<notin> fst ` set s \<and> length s = store_ceiling \<and> k = fst (hd s)
              then 0
            else store_count s k)"
proof -
  let ?key = "rate_key i now w"
  let ?v = "store_count s ?key + 1"
  let ?s1 = "AList.update ?key ?v s"
  have snd_eq: "snd (rateLimit now s i m w) = evict ?s1"
    by (simp add: rateLimit_def Let_def)
  show ?thesis
  proof (cases "length ?s1 > store_ceiling")
    case False
    with assms have no: "\<not> (?key \<notin> fst ` set s \<and> length s = store_ceiling)"
      by (simp add: evict_fires_iff)
    from False have "evict ?s1 = ?s1" by (simp add: evict_def)
    with no show ?thesis by (auto simp: snd_eq store_count_update)
  next
    case True
    with assms have fresh: "?key \<notin> fst ` set s" and full: "length s = store_ceiling"
      by (simp_all add: evict_fires_iff)
    from full have ne: "s \<noteq> []" by (auto simp: store_ceiling_def)
    from fresh ne have hd_ne: "fst (hd s) \<noteq> ?key" by (cases s) auto
    from True have "evict ?s1 = AList.delete (fst (hd s)) ?s1"
      by (simp add: evict_def update_hd [OF ne])
    with fresh full hd_ne show ?thesis
      by (auto simp: snd_eq store_count_delete store_count_update)
  qed
qed

lemma ceil_ms: "nat \<lceil>real w / 1000\<rceil> = (w + 999) div 1000"
proof -
  have "\<lceil>real w / 1000\<rceil> = \<lceil>of_int (int w) / (of_int 1000 :: real)\<rceil>" by simp
  also have "\<dots> = - (- int w div 1000)" by (rule ceiling_divide_eq_div)
  finally show ?thesis by linarith
qed

lemma rate_key_same_window:
  "w > 0 \<Longrightarrow> rate_key i t w = i @ '':'' @ dec_string (t div w)"
  by (simp add: rate_key_def window_label_def)

lemma run_results_same_key:
  assumes "length s \<le> store_ceiling"
    and "\<forall>t \<in> set tms. rate_key ident t w = key"
    and "i < length tms"
  shows "run_results s (window_calls ident m w tms) ! i =
           \<lparr>allowed = (store_count s key + i + 1 \<le> m),
            retryAfter = (if store_count s key + i + 1 \<le> m then 0 else (w + 999) div 1000),
            remaining = m - (store_count s key + i + 1)\<rparr>"
  using assms
proof (induction tms arbitrary: s i)
  case Nil
  then show ?case by simp
next
  case (Cons t ts)
  let ?c = "\<lparr>call_now = t, call_id = ident, call_max = m, call_window = w\<rparr>"
  from Cons.prems have key: "rate_key ident t w = key" by simp
  show ?case
  proof (cases i)
    case 0
    then show ?thesis
      by (simp add: window_calls_def rate_step_def rateLimit_def Let_def key)
  next
    case (Suc j)
    let ?s' = "snd (rate_step s ?c)"
    have len: "length ?s' \<le> store_ceiling"
      using Cons.prems(1) by (simp add: rate_step_def rateLimit_length)
    have cnt: "store_count ?s' key = store_count s key + 1"
      using store_count_rateLimit [OF Cons.prems(1), of t ident m w key] key
      by (simp add: rate_step_def)
    from Cons.prems Suc have j: "j < length ts" and all: "\<forall>t \<in> set ts. rate_key ident t w = key"
      by simp_all
    from Cons.IH [OF len all j] cnt Suc show ?thesis
      by (simp add: window_calls_def)
  qed
qed

lemma run_store_append: "run_store s (cs @ ds) = run_store (run_store s cs) ds"
  by (induction cs arbitrary: s) simp_all

lemma rate_step_fresh:
  assumes "call_key c \<notin> fst ` set s" and "length s < store_ceiling"
  shows "snd (rate_step s c) = s @ [(call_key c, 1)]"
proof -
  from assms(1) have "store_count s (call_key c) = 0" by (rule store_count_fresh)
  with assms show ?thesis
    by (simp add: rate_step_def rateLimit_def Let_def call_key_def update_fresh evict_def)
qed

lemma run_store_fresh:
  assumes "distinct (map call_key cs)"
    and "set (map call_key cs) \<inter> fst ` set s = {}"
    and "length s + length cs \<le> store_ceiling"
  shows "run_store s cs = s @ map (\<lambda>c. (call_key c, 1)) cs"
  using assms
proof (induction cs arbitrary: s)
  case Nil
  then show ?case by simp
next
  case (Cons c cs)
  from Cons.prems have fresh: "call_key c \<notin> fst ` set s" and len: "length s < store_ceiling"
    by auto
  have step: "snd (rate_step s c) = s @ [(call_key c, 1)]"
    by (rule rate_step_fresh [OF fresh len])
  have "run_store (s @ [(call_key c, 1)]) cs = (s @ [(call_key c, 1)]) @ map (\<lambda>c. (call_key c, 1)) cs"
    using Cons.prems by (intro Cons.IH) auto
  with step show ?case by simp
qed

lemma flood_key_inj: "call_key (flood_call m) = call_key (flood_call n) \<Longrightarrow> m = n"
  by (simp add: call_key_def flood_call_def rate_key_def dec_string_inj)

lemma flood_keys_distinct: "distinct (map call_key (map flood_call [m..<n]))"
  by (simp add: distinct_map inj_on_def flood_key_inj distinct_map [of "call_key \<circ> flood_call"] comp_def)

lemma run_store_distinct:
  "distinct (map fst s) \<Longrightarrow> distinct (map fst (run_store s cs))"
proof (induction cs arbitrary: s)
  case Nil
  then show ?case by simp
next
  case (Cons c cs)
  have "distinct (map fst (snd (rate_step s c)))"
    using Cons.prems
    by (simp add: rate_step_def rateLimit_def Let_def evict_def distinct_update distinct_delete)
  then show ?case by (simp add: Cons.IH)
qed

text \<open>
  Claim C3. In any store reached from the empty one, consecutive calls of
  \<open>rateLimit\<close> with one identifier, one limit and one window size, at times that fall
  into one fixed window: the call number \<open>i + 1\<close> of the sequence counts the key's
  earlier count plus \<open>i + 1\<close> and is allowed exactly when that count is at most
  \<open>maxRequests\<close>; a call that is not allowed returns
  \<open>retryAfter = ceil(windowMs / 1000)\<close>, which is positive. When the key is new at the
  start of the sequence, exactly the first \<open>maxRequests\<close> calls are allowed.
\<close>

theorem rateLimit_fixed_window:
  assumes "0 < windowMs"
    and "\<forall>t \<in> set tms. t div windowMs = widx" and "i < length tms"
  shows "let store = run_store [] earlier;
             key = identifier @ '':'' @ dec_string widx;
             count = store_count store key + (i + 1);
             r = run_results store (window_calls identifier maxRequests windowMs tms) ! i
         in allowed r = (count \<le> maxRequests) \<and>
            retryAfter r = (if allowed r then 0 else nat \<lceil>real windowMs / 1000\<rceil>) \<and>
            (\<not> allowed r \<longrightarrow> 0 < retryAfter r) \<and>
            (key \<notin> fst ` set store \<longrightarrow> allowed r = (i < maxRequests))"
proof -
  let ?key = "identifier @ '':'' @ dec_string widx"
  from assms(1,2) have same: "\<forall>t \<in> set tms. rate_key identifier t windowMs = ?key"
    by (simp add: rate_key_same_window)
  have len: "length (run_store [] earlier) \<le> store_ceiling"
    by (rule run_store_length) simp
  note r = run_results_same_key [OF len same assms(3), of maxRequests]
  from assms(1) have "0 < (windowMs + 999) div 1000" by simp
  then show ?thesis
    by (auto simp: Let_def r ceil_ms store_count_fresh)
qed

theorem rateLimit_fixed_window_witness:
  "\<not> allowed (run_results [] (window_calls ''203.0.113.7'' 2 3600000
       [1700000000000, 1700000000500, 1700000001000]) ! 2) \<and>
   retryAfter (run_results [] (window_calls ''203.0.113.7'' 2 3600000
       [1700000000000, 1700000000500, 1700000001000]) ! 2) = 3600"
  using rateLimit_fixed_window [of 3600000
      "[1700000000000, 1700000000500, 1700000001000]" 472222 2 "[]" "''203.0.113.7''" 2]
  by (simp add: Let_def store_count_def)

lemma run_store_nil_ok: "length (run_store [] cs) \<le> store_ceiling"
  by (rule run_store_length) simp

text \<open>
  Claim C8. After any sequence of calls from the empty store the store holds at most
  10,000 entries. In a store so reached, a call whose insertion makes the size
  exceed 10,000 removes exactly the first entry and leaves 10,000; a call whose
  insertion does not exceed it removes nothing.
\<close>

theorem rateLimitStore_bounded:
  "length (run_store [] cs) \<le> 10000 \<and>
   (let s = run_store [] cs;
        s1 = AList.update (call_key c) (store_count s (call_key c) + 1) s;
        s2 = snd (rate_step s c)
    in (10000 < length s1 \<longrightarrow> s2 = tl s1 \<and> length s2 = 10000) \<and>
       (length s1 \<le> 10000 \<longrightarrow> s2 = s1) \<and> length s2 \<le> 10000)"
proof -
  let ?s = "run_store [] cs"
  let ?s1 = "AList.update (call_key c) (store_count ?s (call_key c) + 1) ?s"
  let ?s2 = "snd (rate_step ?s c)"
  have len: "length ?s \<le> store_ceiling" by (rule run_store_nil_ok)
  have s2: "?s2 = evict ?s1"
    by (simp add: rate_step_def rateLimit_def Let_def call_key_def)
  have dist: "distinct (map fst ?s1)"
    by (simp add: distinct_update run_store_distinct)
  have ne: "?s1 \<noteq> []" by simp
  have tl: "AList.delete (fst (hd ?s1)) ?s1 = tl ?s1"
    by (rule delete_head_distinct [OF dist ne])
  have len1: "length ?s1 \<le> Suc store_ceiling"
    using len update_length_le [of "call_key c" "store_count ?s (call_key c) + 1" ?s] by simp
  have big: "store_ceiling < length ?s1 \<Longrightarrow> ?s2 = tl ?s1 \<and> length ?s2 = store_ceiling"
    using len1 tl by (simp add: s2 evict_def)
  have small: "length ?s1 \<le> store_ceiling \<Longrightarrow> ?s2 = ?s1"
    by (simp add: s2 evict_def)
  have len2: "length ?s2 \<le> store_ceiling"
    unfolding s2 by (rule evict_length [OF len1])
  note facts = len [unfolded store_ceiling_def] big [unfolded store_ceiling_def]
    small [unfolded store_ceiling_def] len2 [unfolded store_ceiling_def]
  show ?thesis
    unfolding Let_def using facts by blast
qed


lemma flood_distinct: "distinct (map call_key (flood m n))"
  unfolding flood_def by (rule flood_keys_distinct)

lemma flood_length: "length (flood m n) = n - m"
  by (simp add: flood_def)

lemma flood_store:
  assumes "n \<le> store_ceiling"
  shows "run_store [] (flood 0 n) = map (\<lambda>c. (call_key c, 1)) (flood 0 n)"
proof -
  have "run_store [] (flood 0 n) = [] @ map (\<lambda>c. (call_key c, 1)) (flood 0 n)"
    using assms by (intro run_store_fresh) (simp_all add: flood_distinct flood_length)
  then show ?thesis by simp
qed

lemma flood_key_fresh: "n \<le> k \<Longrightarrow> call_key (flood_call k) \<notin> call_key ` set (flood m n)"
  by (auto simp: flood_def dest: flood_key_inj)

theorem rateLimitStore_bounded_witness:
  "snd (rate_step (run_store [] (flood 0 10000)) (flood_call 10000)) =
     tl (run_store [] (flood 0 10000)) @ [(call_key (flood_call 10000), 1)]"
proof -
  let ?s = "run_store [] (flood 0 10000)"
  let ?k = "call_key (flood_call 10000)"
  have s: "?s = map (\<lambda>c. (call_key c, 1)) (flood 0 10000)"
    by (rule flood_store) (simp add: store_ceiling_def)
  have fresh: "?k \<notin> fst ` set ?s"
    using flood_key_fresh [of 10000 10000 0] by (simp add: s image_image)
  have len: "length ?s = 10000" unfolding s by (simp add: flood_length)
  have ne: "?s \<noteq> []" using len by auto
  have cnt: "store_count ?s ?k = 0" by (rule store_count_fresh [OF fresh])
  have upd: "AList.update ?k (store_count ?s ?k + 1) ?s = ?s @ [(?k, 1)]"
    by (simp add: cnt update_fresh [OF fresh])
  have "10000 < length (AList.update ?k (store_count ?s ?k + 1) ?s) \<longrightarrow>
        snd (rate_step ?s (flood_call 10000)) = tl (AList.update ?k (store_count ?s ?k + 1) ?s)"
    using rateLimitStore_bounded [of "flood 0 10000" "flood_call 10000"]
    unfolding Let_def by blast
  then have "snd (rate_step ?s (flood_call 10000)) = tl (?s @ [(?k, 1)])"
    unfolding upd by (simp add: len)
  with ne show ?thesis by simp
qed

lemma flood_key_below: "k < m \<Longrightarrow> call_key (flood_call k) \<notin> call_key ` set (flood m n)"
  by (auto simp: flood_def dest: flood_key_inj)

lemma twice_store:
  "run_store [] [flood_call 0, flood_call 0] = [(call_key (flood_call 0), 2)]"
  by (simp add: rate_step_def rateLimit_def Let_def store_count_def evict_def store_ceiling_def
      call_key_def)

text \<open>
  One client counted twice, then 9,999 other clients once each, all in one window:
  the store is full and the first client's entry is its oldest.
\<close>

lemma full_store:
  "run_store [] ([flood_call 0, flood_call 0] @ flood 1 10000) =
     (call_key (flood_call 0), 2) # map (\<lambda>c. (call_key c, 1)) (flood 1 10000)"
proof -
  let ?s0 = "[(call_key (flood_call 0), 2 :: nat)]"
  have "run_store ?s0 (flood 1 10000) = ?s0 @ map (\<lambda>c. (call_key c, 1)) (flood 1 10000)"
    using flood_key_below [of 0 1 10000]
    by (intro run_store_fresh) (simp_all add: flood_distinct flood_length store_ceiling_def)
  then show ?thesis
    by (simp only: run_store_append twice_store) simp
qed

lemma full_store_props:
  defines "s \<equiv> run_store [] ([flood_call 0, flood_call 0] @ flood 1 10000)"
  shows "length s = 10000" and "fst (hd s) = call_key (flood_call 0)"
    and "call_key (flood_call 10000) \<notin> fst ` set s"
    and "store_count s (call_key (flood_call 0)) = 2"
proof -
  show "length s = 10000" unfolding s_def full_store by (simp add: flood_length)
  show "fst (hd s) = call_key (flood_call 0)" unfolding s_def full_store by simp
  have "call_key (flood_call 10000) \<noteq> call_key (flood_call 0)"
    using flood_key_inj [of 10000 0] by auto
  then show "call_key (flood_call 10000) \<notin> fst ` set s"
    unfolding s_def full_store using flood_key_fresh [of 10000 10000 1]
    by (simp add: image_image)
  show "store_count s (call_key (flood_call 0)) = 2"
    unfolding s_def full_store by (simp add: store_count_def)
qed

text \<open>
  Claim C9, as amended. In any store reached from the empty one, a call adds exactly one
  to the count of its own key, and leaves the count of every other key as it was,
  except the key of the oldest entry when the call inserts a new key into a store of
  10,000 entries: that entry is evicted and its count restarts from zero. So a
  window's count never decreases as long as its entry is not the one evicted.
\<close>

theorem window_count_step:
  "let s = run_store [] cs; s' = snd (rate_step s c)
   in store_count s' k =
        (if k = call_key c then store_count s k + 1
         else if call_key c \<notin> fst ` set s \<and> length s = 10000 \<and> k = fst (hd s) then 0
         else store_count s k)"
  using store_count_rateLimit [OF run_store_nil_ok [of cs], where now = "call_now c"
      and i = "call_id c" and m = "call_max c" and w = "call_window c" and k = k]
  by (simp add: Let_def rate_step_def call_key_def store_ceiling_def)

theorem window_count_step_witness:
  "store_count (snd (rate_step (run_store [] ([flood_call 0, flood_call 0] @ flood 1 10000))
      (flood_call 10000))) (call_key (flood_call 0)) = 0"
proof -
  have "call_key (flood_call 0) \<noteq> call_key (flood_call 10000)"
    using flood_key_inj [of 0 10000] by auto
  then show ?thesis
    using window_count_step [of "[flood_call 0, flood_call 0] @ flood 1 10000"
        "flood_call 10000" "call_key (flood_call 0)"] full_store_props(1,2,3)
    by (simp add: Let_def)
qed

text \<open>
  Claim C9 as stated fails: a client counted twice, followed in the same window by
  10,000 other clients, has lost its entry, and its count is read as zero again.
\<close>

theorem window_count_reset_counterexample:
  "store_count (run_store [] ([flood_call 0, flood_call 0] @ flood 1 10000))
      (call_key (flood_call 0)) = 2 \<and>
   store_count (run_store [] ([flood_call 0, flood_call 0] @ flood 1 10000 @ [flood_call 10000]))
      (call_key (flood_call 0)) = 0"
proof -
  let ?s = "run_store [] ([flood_call 0, flood_call 0] @ flood 1 10000)"
  have ne: "call_key (flood_call 0) \<noteq> call_key (flood_call 10000)"
    using flood_key_inj [of 0 10000] by auto
  have len: "length ?s \<le> store_ceiling"
    using full_store_props(1) by (simp add: store_ceiling_def)
  have "store_count (snd (rate_step ?s (flood_call 10000))) (call_key (flood_call 0)) = 0"
    using store_count_rateLimit [OF len, where now = "call_now (flood_call 10000)"
        and i = "call_id (flood_call 10000)" and m = "call_max (flood_call 10000)"
        and w = "call_window (flood_call 10000)" and k = "call_key (flood_call 0)"]
      ne full_store_props(1,2,3)
    by (simp add: rate_step_def call_key_def store_ceiling_def)
  moreover have "run_store [] ([flood_call 0, flood_call 0] @ flood 1 10000 @ [flood_call 10000])
      = snd (rate_step ?s (flood_call 10000))"
    using run_store_append [of "[]" "[flood_call 0, flood_call 0] @ flood 1 10000"
        "[flood_call 10000]"] by simp
  ultimately show ?thesis using full_store_props(4) by simp
qed

section \<open>Properties of the ingestion endpoint\<close>

lemma js_Number_JNum: "js_Number (JNum n) = Inr n"
  by (simp add: js_Number_def)

text \<open>What the schema of the endpoint makes of a body, case by case.\<close>

lemma validate_track_view:
  "validateInput rt input track_view_schema =
     (case js_get rt input ''book_id'' of
        Inl x \<Rightarrow> Inl x
      | Inr v \<Rightarrow>
          if is_blank v
          then Inr \<lparr>isValid = False, errors = [''book_id is required''], data = []\<rparr>
          else (case js_Number v of
                  Inl x \<Rightarrow> Inl x
                | Inr n \<Rightarrow>
                    if typeof v \<noteq> TyNumber \<and> isNaN n
                    then Inr \<lparr>isValid = False, errors = [''book_id must be a number''], data = []\<rparr>
                    else Inr \<lparr>isValid = True, errors = [], data = [(''book_id'', JNum n)]\<rparr>))"
  by (simp add: validateInput_def track_view_schema_def validate_entry_def type_check_def
      split: sum.splits)

text \<open>A POST that the limiter lets through runs the try block on the counted state.\<close>

lemma handler_post_allowed:
  assumes "req_method req = ''POST''" and "passes_limiter e req srv"
  shows "track_view_handler e req srv =
     (case track_view_try e req (counted e req srv) of
        Inr out \<Rightarrow> out
      | Inl error \<Rightarrow>
          (\<lparr>status = HTTP_INTERNAL_ERROR,
            body = InternalError (node_env e = Some ''development'') error\<rparr>,
           (counted e req srv)\<lparr>error_log := error_log (counted e req srv) @
              [(''Error tracking view'', Exception error)]\<rparr>))"
  using assms
  by (simp add: track_view_handler_def Let_def case_prod_beta counted_def passes_limiter_def
      split: sum.splits)

lemma sample_passes: "passes_limiter (sample_env db) (sample_request m b) (new_server bs)"
  by (simp add: passes_limiter_def sample_env_def new_server_def rateLimit_def Let_def
      store_count_def)

lemma sample_post: "req_method (sample_request ''POST'' b) = ''POST''"
  by (simp add: sample_request_def)

text \<open>
  Claim C2. A POST that passed the limiter and the validation, with a positive
  \<open>book_id\<close>: when the insert comes back with an error, the answer is HTTP 200 with
  \<open>{success: true, tracked: false}\<close>, the error goes to the log and no row is written;
  when the insert succeeds, the answer is HTTP 200 with \<open>{success: true, tracked: true}\<close>
  and the row is there.
\<close>

theorem storage_error_swallowed:
  assumes "req_method req = ''POST''" and "passes_limiter e req srv"
    and "validateInput (runtime e) (req_body req) track_view_schema = Inr v" and "isValid v"
    and "map_of (data v) ''book_id'' = Some b" and "js_le b (Fin 0) = Inr False"
  shows "(db_insert e b = InsertError err \<longrightarrow>
            track_view_handler e req srv =
              (\<lparr>status = 200, body = Tracked False\<rparr>,
               (counted e req srv)\<lparr>error_log := error_log srv @
                  [(''Failed to track view'', StorageError err)]\<rparr>)) \<and>
         (db_insert e b = Inserted \<longrightarrow>
            track_view_handler e req srv =
              (\<lparr>status = 200, body = Tracked True\<rparr>,
               (counted e req srv)\<lparr>book_views := book_views srv @ [b]\<rparr>))"
  using assms
  by (simp add: handler_post_allowed track_view_try_def HTTP_OK_def counted_def)

theorem storage_error_swallowed_witness:
  "track_view_handler (sample_env failing_db) (sample_request ''POST'' (JObj [(units ''book_id'', JNum (Fin 123))]))
       (new_server []) =
     (\<lparr>status = 200, body = Tracked False\<rparr>,
      (counted (sample_env failing_db) (sample_request ''POST'' (JObj [(units ''book_id'', JNum (Fin 123))]))
         (new_server []))
       \<lparr>error_log := [(''Failed to track view'', StorageError ''connection refused'')]\<rparr>) \<and>
   track_view_handler (sample_env healthy_db) (sample_request ''POST'' (JObj [(units ''book_id'', JNum (Fin 123))]))
       (new_server []) =
     (\<lparr>status = 200, body = Tracked True\<rparr>,
      (counted (sample_env healthy_db) (sample_request ''POST'' (JObj [(units ''book_id'', JNum (Fin 123))]))
         (new_server []))
       \<lparr>book_views := [JNum (Fin 123)]\<rparr>)"
proof -
  let ?req = "sample_request ''POST'' (JObj [(units ''book_id'', JNum (Fin 123))])"
  let ?v = "\<lparr>isValid = True, errors = [], data = [(''book_id'', JNum (Fin 123))]\<rparr>"
  have v: "validateInput rt (req_body ?req) track_view_schema = Inr ?v" for rt
    by (simp add: validate_track_view sample_request_def is_blank_def js_Number_JNum js_get_def)
  have le: "js_le (JNum (Fin 123)) (Fin 0) = Inr False"
    by (simp add: js_le_def js_Number_JNum)
  have "db_insert (sample_env failing_db) (JNum (Fin 123)) = InsertError ''connection refused''"
    by (simp add: sample_env_def failing_db_def)
  moreover have "db_insert (sample_env healthy_db) (JNum (Fin 123)) = Inserted"
    by (simp add: sample_env_def healthy_db_def)
  ultimately show ?thesis
    using storage_error_swallowed [where e = "sample_env failing_db" and req = ?req
        and srv = "new_server []" and v = ?v and b = "JNum (Fin 123)"
        and err = "''connection refused''"]
      storage_error_swallowed [where e = "sample_env healthy_db" and req = ?req
        and srv = "new_server []" and v = ?v and b = "JNum (Fin 123)"]
      sample_post sample_passes v le
    by (simp add: new_server_def)
qed

text \<open>
  Claim C1, as amended. When the try block of the handler throws, on a POST that passed
  the limiter, the exception is logged and the answer is HTTP 500 with the internal
  error object built from the exception; nothing else is written. The handler of the
  second text of the file answers an exception in its try block with HTTP 200 and
  \<open>{success: true, tracked: false}\<close>.
\<close>

theorem exception_gives_internal_error:
  assumes "req_method req = ''POST''" and "passes_limiter e req srv"
  shows "(track_view_try e req (counted e req srv) = Inl x \<longrightarrow>
            track_view_handler e req srv =
              (\<lparr>status = 500, body = InternalError (node_env e = Some ''development'') x\<rparr>,
               (counted e req srv)\<lparr>error_log := error_log srv @
                  [(''Error tracking view'', Exception x)]\<rparr>)) \<and>
         (track_view_basic_try print e req srv = Inl x \<longrightarrow>
            track_view_basic_handler print e req srv =
              (\<lparr>status = 200, body = Tracked False\<rparr>,
               srv\<lparr>error_log := error_log srv @ [(''Error tracking view:'', Exception x)]\<rparr>))"
  using assms
  by (simp add: handler_post_allowed track_view_basic_handler_def HTTP_INTERNAL_ERROR_def
      counted_def)

theorem exception_gives_internal_error_witness:
  "track_view_handler (sample_env healthy_db) (sample_request ''POST'' JUndefined) (new_server []) =
     (\<lparr>status = 500, body = InternalError False TypeError\<rparr>,
      (counted (sample_env healthy_db) (sample_request ''POST'' JUndefined) (new_server []))
        \<lparr>error_log := [(''Error tracking view'', Exception TypeError)]\<rparr>) \<and>
   track_view_handler (sample_env throwing_db)
       (sample_request ''POST'' (JObj [(units ''book_id'', JNum (Fin 123))])) (new_server []) =
     (\<lparr>status = 500, body = InternalError False (Thrown ''fetch failed'')\<rparr>,
      (counted (sample_env throwing_db)
         (sample_request ''POST'' (JObj [(units ''book_id'', JNum (Fin 123))])) (new_server []))
        \<lparr>error_log := [(''Error tracking view'', Exception (Thrown ''fetch failed''))]\<rparr>) \<and>
   track_view_basic_handler whole_text (sample_env healthy_db) (sample_request ''POST'' JUndefined)
       (new_server []) =
     (\<lparr>status = 200, body = Tracked False\<rparr>,
      (new_server [])\<lparr>error_log := [(''Error tracking view:'', Exception TypeError)]\<rparr>)"
proof -
  let ?e = "sample_env healthy_db"
  let ?req = "sample_request ''POST'' JUndefined"
  let ?e' = "sample_env throwing_db"
  let ?req' = "sample_request ''POST'' (JObj [(units ''book_id'', JNum (Fin 123))])"
  have t: "track_view_try ?e ?req (counted ?e ?req (new_server [])) = Inl TypeError"
    by (simp add: track_view_try_def validate_track_view sample_request_def js_get_def)
  have t': "track_view_try ?e' ?req' (counted ?e' ?req' (new_server [])) =
      Inl (Thrown ''fetch failed'')"
    by (simp add: track_view_try_def validate_track_view sample_request_def is_blank_def
        js_Number_JNum js_le_def sample_env_def throwing_db_def js_get_def)
  have b: "track_view_basic_try whole_text ?e ?req (new_server []) = Inl TypeError"
    by (simp add: track_view_basic_try_def sample_request_def js_get_def)
  have dev: "node_env ?e \<noteq> Some ''development''" "node_env ?e' \<noteq> Some ''development''"
    by (simp_all add: sample_env_def)
  show ?thesis
    using exception_gives_internal_error [where e = ?e and req = ?req and srv = "new_server []"
        and x = TypeError and print = whole_text]
      exception_gives_internal_error [where e = ?e' and req = ?req' and srv = "new_server []"
        and x = "Thrown ''fetch failed''" and print = whole_text]
      sample_post sample_passes t t' b dev
    by (simp add: new_server_def)
qed

text \<open>
  Claim C1 as stated fails: a POST without a body makes the validation throw a
  TypeError inside the try block, and the handler answers HTTP 500.
\<close>

theorem exception_not_swallowed_counterexample:
  "fst (track_view_handler (sample_env healthy_db) (sample_request ''POST'' JUndefined)
         (new_server [])) =
     \<lparr>status = 500, body = InternalError False TypeError\<rparr>"
proof -
  let ?e = "sample_env healthy_db"
  let ?req = "sample_request ''POST'' JUndefined"
  have t: "track_view_try ?e ?req (counted ?e ?req (new_server [])) = Inl TypeError"
    by (simp add: track_view_try_def validate_track_view sample_request_def js_get_def)
  have dev: "node_env ?e \<noteq> Some ''development''" by (simp add: sample_env_def)
  show ?thesis
    unfolding handler_post_allowed [OF sample_post sample_passes] t
    using dev by (simp add: HTTP_INTERNAL_ERROR_def)
qed

text \<open>
  Claim C6, as amended. The ingestion handler answers every method other than POST and
  OPTIONS with HTTP 405 and the method-not-allowed error, and an OPTIONS request with
  HTTP 200 and no body; the catalog handler answers every method other than GET with
  HTTP 405. In all three cases the state is left as it was: no counter of the
  limiter is incremented and no row is inserted.
\<close>

theorem wrong_method_rejected:
  "(req_method req \<noteq> ''POST'' \<and> req_method req \<noteq> ''OPTIONS'' \<longrightarrow>
      track_view_handler e req srv =
        (\<lparr>status = 405, body = MethodNotAllowedError ''POST''\<rparr>, srv)) \<and>
   (req_method req = ''OPTIONS'' \<longrightarrow>
      track_view_handler e req srv = (\<lparr>status = 200, body = NoBody\<rparr>, srv)) \<and>
   (req_method req \<noteq> ''GET'' \<longrightarrow>
      books_handler req srv =
        (\<lparr>status = 405, body = Failure ''Method not allowed. Use GET.''\<rparr>, srv))"
  by (simp add: track_view_handler_def books_handler_def HTTP_METHOD_NOT_ALLOWED_def)

theorem wrong_method_rejected_witness:
  "track_view_handler (sample_env healthy_db) (sample_request ''GET'' JUndefined) (new_server []) =
     (\<lparr>status = 405, body = MethodNotAllowedError ''POST''\<rparr>, new_server []) \<and>
   track_view_handler (sample_env healthy_db) (sample_request ''OPTIONS'' JUndefined) (new_server []) =
     (\<lparr>status = 200, body = NoBody\<rparr>, new_server []) \<and>
   books_handler (sample_request ''POST'' JUndefined) (new_server []) =
     (\<lparr>status = 405, body = Failure ''Method not allowed. Use GET.''\<rparr>, new_server [])"
  using wrong_method_rejected [of "sample_request ''GET'' JUndefined" "sample_env healthy_db"
      "new_server []"]
    wrong_method_rejected [of "sample_request ''OPTIONS'' JUndefined" "sample_env healthy_db"
      "new_server []"]
    wrong_method_rejected [of "sample_request ''POST'' JUndefined" "sample_env healthy_db"
      "new_server []"]
  by (simp add: sample_request_def)

text \<open>
  Claim C6 as stated fails: OPTIONS is not POST, and the ingestion handler answers it
  with HTTP 200.
\<close>

theorem options_not_rejected_counterexample:
  "req_method (sample_request ''OPTIONS'' JUndefined) \<noteq> ''POST'' \<and>
   fst (track_view_handler (sample_env healthy_db) (sample_request ''OPTIONS'' JUndefined)
         (new_server [])) = \<lparr>status = 200, body = NoBody\<rparr>"
  by (simp add: track_view_handler_def sample_request_def)

section \<open>Properties of the catalog endpoint\<close>

text \<open>
  Claim C5, as amended. The catalog handler answers every GET with HTTP 200 and the
  same listing: no books, page 1, limit 20, total 0, pages 0 and statistics of 0,
  whatever the store holds and whatever the query asks for, and leaves the state as
  it was. The limit of a listing it returns is at most 100 and bounds the number
  of its books.
\<close>

theorem books_listing_fixed:
  "req_method req = ''GET'' \<longrightarrow>
     books_handler req srv =
       (\<lparr>status = 200,
         body = Listing \<lparr>books = [], page = 1, limit = 20, total = 0, pages = 0,
                          total_books = 0, total_authors = 0\<rparr>\<rparr>, srv) \<and>
     (\<forall>l. body (fst (books_handler req srv)) = Listing l \<longrightarrow>
        limit l \<le> 100 \<and> length (books l) \<le> limit l)"
  by (simp add: books_handler_def)

theorem books_listing_fixed_witness:
  "books_handler (sample_request ''GET'' JUndefined) (new_server [1, 2, 3, 4, 5]) =
     (\<lparr>status = 200,
       body = Listing \<lparr>books = [], page = 1, limit = 20, total = 0, pages = 0,
                        total_books = 0, total_authors = 0\<rparr>\<rparr>, new_server [1, 2, 3, 4, 5])"
  using books_listing_fixed [of "sample_request ''GET'' JUndefined" "new_server [1, 2, 3, 4, 5]"]
  by (simp add: sample_request_def)

text \<open>
  Claim C5 as stated fails: with five books in the store, a GET for page 1 with
  limit 20 is answered with no book and a total of 0.
\<close>

theorem books_listing_counterexample:
  "req_method (sample_request ''GET'' JUndefined) = ''GET'' \<and>
   req_query (sample_request ''GET'' JUndefined) = [(''page'', ''1''), (''limit'', ''20'')] \<and>
   length (catalog (new_server [1, 2, 3, 4, 5])) = 5 \<and>
   fst (books_handler (sample_request ''GET'' JUndefined) (new_server [1, 2, 3, 4, 5])) =
     \<lparr>status = 200,
      body = Listing \<lparr>books = [], page = 1, limit = 20, total = 0, pages = 0,
                       total_books = 0, total_authors = 0\<rparr>\<rparr>"
  by (simp add: books_handler_def sample_request_def new_server_def)

section \<open>Properties of the validation\<close>

text \<open>The loop only ever appends to the errors it was given.\<close>

lemma validate_entry_errors:
  assumes "validate_entry rt input entry (errs, san) = Inr (errs', san')"
  shows "errs' = errs @ entry_errors rt input entry"
proof -
  obtain field r where entry: "entry = (field, r)" by (cases entry)
  from assms obtain v where get: "js_get rt input field = Inr v"
    by (auto simp: validate_entry_def entry split: sum.splits)
  show ?thesis
  proof (cases "is_blank v")
    case True
    with assms show ?thesis
      by (cases "required r") (auto simp: validate_entry_def entry_errors_def entry get)
  next
    case False
    show ?thesis
    proof (cases "type_check field (rtype r) v")
      case (Inl x)
      with assms False show ?thesis by (simp add: validate_entry_def entry get)
    next
      case (Inr outcome)
      show ?thesis
      proof (cases outcome)
        case (Mismatch msg)
        with assms False Inr show ?thesis
          by (auto simp: validate_entry_def entry_errors_def entry get)
      next
        case (NumberStored n)
        with assms False Inr show ?thesis
          by (auto simp: validate_entry_def entry_errors_def entry get)
      next
        case Proceed
        with assms False Inr show ?thesis
          by (cases v) (auto simp: validate_entry_def entry_errors_def entry get)
      qed
    qed
  qed
qed

lemma validate_loop_errors:
  assumes "validate_loop rt input sch (errs, san) = Inr (errs', san')"
  shows "errs' = errs @ concat (map (entry_errors rt input) sch)"
  using assms
proof (induction sch arbitrary: errs san)
  case Nil
  then show ?case by simp
next
  case (Cons entry rest)
  from Cons.prems obtain errs1 san1 where
    step: "validate_entry rt input entry (errs, san) = Inr (errs1, san1)"
    and rest: "validate_loop rt input rest (errs1, san1) = Inr (errs', san')"
    by (auto split: sum.splits)
  from validate_entry_errors [OF step] Cons.IH [OF rest] show ?case by simp
qed

lemma validateInput_errors:
  assumes "validateInput rt input sch = Inr res"
  shows "errors res = concat (map (entry_errors rt input) sch) \<and> isValid res = (errors res = [])"
proof -
  from assms obtain errs san where
    loop: "validate_loop rt input sch ([], []) = Inr (errs, san)"
    and res: "res = \<lparr>isValid = (errs = []), errors = errs, data = san\<rparr>"
    by (auto simp: validateInput_def split: sum.splits)
  from validate_loop_errors [OF loop] res show ?thesis by simp
qed

text \<open>Rules that evaluate the conversions on written-out numerals.\<close>

lemma bit_length_0: "bit_length 0 = 0"
  by (simp add: bit_length.simps)

lemma bit_length_1: "bit_length (Suc 0) = Suc 0"
  by (simp add: bit_length.simps [of "Suc 0"] bit_length_0)

lemma bit_length_numeral: "bit_length (numeral k) = Suc (bit_length (numeral k div 2))"
  by (simp add: bit_length.simps [of "numeral k"])

lemma floor_rat_numeral: "\<lfloor>numeral a / numeral b :: rat\<rfloor> = numeral a div numeral b"
  using floor_divide_of_int_eq [of "numeral a" "numeral b", where ?'a = rat] by simp

lemmas number_text_defs = string_to_number_def js_trim_def is_space_def non_decimal_def
  signed_decimal_def unsigned_decimal_def cut_at_def all_digits_def is_digit_def digit_of_def
  to_double_def exponent_part_def units_def code_unit_def binary_exponent_def pow2_def
  round_half_even_def bit_length_0 bit_length_1 bit_length_numeral floor_rat_numeral Let_def

lemma js_get_nullish: "v = JUndefined \<or> v = JNull \<Longrightarrow> js_get rt v field = Inl TypeError"
  by (auto simp: js_get_def)

text \<open>
  Claim C4, as amended. A POST that passed the limiter. When the body is null or
  undefined, reading \<open>book_id\<close> throws, and when \<open>book_id\<close> is there and its conversion
  to a number throws (an object with an own \<open>toString\<close>, or an array holding one),
  the answer is HTTP 500 with the internal error object. Otherwise a missing
  \<open>book_id\<close> (undefined, as also null and the empty string) is answered with HTTP 400
  and the list holding \<open>book_id is required\<close>; a \<open>book_id\<close> that is not a number and
  converts to \<open>NaN\<close> with HTTP 400 and the list holding \<open>book_id must be a number\<close>; a
  \<open>book_id\<close> whose number is zero or negative passes the schema and is then answered
  with HTTP 400 and \<open>book_id must be a positive number\<close>. Whenever the schema fails the
  answer carries the whole list of errors of the validation, and that list, for any
  schema and input, is made of the messages of every entry of the schema in turn. No
  row is written in any of these cases.
\<close>

theorem validation_outcomes:
  assumes "req_method req = ''POST''" and "passes_limiter e req srv"
  shows "(req_body req = JUndefined \<or> req_body req = JNull \<longrightarrow>
            track_view_handler e req srv =
              (\<lparr>status = 500,
                body = InternalError (node_env e = Some ''development'') TypeError\<rparr>,
               (counted e req srv)\<lparr>error_log := error_log srv @
                  [(''Error tracking view'', Exception TypeError)]\<rparr>)) \<and>
         (\<forall>v. js_get (runtime e) (req_body req) ''book_id'' = Inr v \<longrightarrow>
            (is_blank v \<longrightarrow>
               track_view_handler e req srv =
                 (\<lparr>status = 400,
                   body = ValidationError ''Validation failed'' (Some [''book_id is required''])\<rparr>,
                  counted e req srv)) \<and>
            (\<forall>x. \<not> is_blank v \<and> js_Number v = Inl x \<longrightarrow>
               track_view_handler e req srv =
                 (\<lparr>status = 500,
                   body = InternalError (node_env e = Some ''development'') x\<rparr>,
                  (counted e req srv)\<lparr>error_log := error_log srv @
                     [(''Error tracking view'', Exception x)]\<rparr>)) \<and>
            (\<not> is_blank v \<and> typeof v \<noteq> TyNumber \<and> js_Number v = Inr NaN \<longrightarrow>
               track_view_handler e req srv =
                 (\<lparr>status = 400,
                   body = ValidationError ''Validation failed''
                            (Some [''book_id must be a number''])\<rparr>,
                  counted e req srv)) \<and>
            (\<forall>n. \<not> is_blank v \<and> js_Number v = Inr n \<and> \<not> (typeof v \<noteq> TyNumber \<and> isNaN n) \<and>
                 num_le n (Fin 0) \<longrightarrow>
               validateInput (runtime e) (req_body req) track_view_schema =
                 Inr \<lparr>isValid = True, errors = [], data = [(''book_id'', JNum n)]\<rparr> \<and>
               track_view_handler e req srv =
                 (\<lparr>status = 400,
                   body = ValidationError ''book_id must be a positive number'' None\<rparr>,
                  counted e req srv))) \<and>
         (\<forall>res. validateInput (runtime e) (req_body req) track_view_schema = Inr res \<and>
               \<not> isValid res \<longrightarrow>
            track_view_handler e req srv =
              (\<lparr>status = 400, body = ValidationError ''Validation failed'' (Some (errors res))\<rparr>,
               counted e req srv)) \<and>
         (\<forall>res. validateInput rt input sch = Inr res \<longrightarrow>
            errors res = concat (map (entry_errors rt input) sch) \<and>
            isValid res = (errors res = []))"
proof -
  note h = handler_post_allowed [OF assms]
  have null: "track_view_handler e req srv =
      (\<lparr>status = 500, body = InternalError (node_env e = Some ''development'') TypeError\<rparr>,
       (counted e req srv)\<lparr>error_log := error_log srv @
          [(''Error tracking view'', Exception TypeError)]\<rparr>)"
    if "req_body req = JUndefined \<or> req_body req = JNull"
    using js_get_nullish [OF that]
    by (simp add: h track_view_try_def validate_track_view HTTP_INTERNAL_ERROR_def counted_def)
  have a: "track_view_handler e req srv =
      (\<lparr>status = 400,
        body = ValidationError ''Validation failed'' (Some [''book_id is required''])\<rparr>,
       counted e req srv)"
    if "js_get (runtime e) (req_body req) ''book_id'' = Inr v" "is_blank v" for v
    using that by (simp add: h track_view_try_def validate_track_view HTTP_BAD_REQUEST_def)
  have t: "track_view_handler e req srv =
      (\<lparr>status = 500, body = InternalError (node_env e = Some ''development'') x\<rparr>,
       (counted e req srv)\<lparr>error_log := error_log srv @
          [(''Error tracking view'', Exception x)]\<rparr>)"
    if "js_get (runtime e) (req_body req) ''book_id'' = Inr v" "\<not> is_blank v \<and> js_Number v = Inl x"
    for v x
    using that
    by (simp add: h track_view_try_def validate_track_view HTTP_INTERNAL_ERROR_def counted_def)
  have b: "track_view_handler e req srv =
      (\<lparr>status = 400,
        body = ValidationError ''Validation failed'' (Some [''book_id must be a number''])\<rparr>,
       counted e req srv)"
    if "js_get (runtime e) (req_body req) ''book_id'' = Inr v"
      "\<not> is_blank v \<and> typeof v \<noteq> TyNumber \<and> js_Number v = Inr NaN" for v
    using that
    by (simp add: h track_view_try_def validate_track_view HTTP_BAD_REQUEST_def isNaN_def)
  have c: "validateInput (runtime e) (req_body req) track_view_schema =
        Inr \<lparr>isValid = True, errors = [], data = [(''book_id'', JNum n)]\<rparr> \<and>
      track_view_handler e req srv =
      (\<lparr>status = 400, body = ValidationError ''book_id must be a positive number'' None\<rparr>,
       counted e req srv)"
    if "js_get (runtime e) (req_body req) ''book_id'' = Inr v"
      "\<not> is_blank v \<and> js_Number v = Inr n \<and> \<not> (typeof v \<noteq> TyNumber \<and> isNaN n) \<and>
       num_le n (Fin 0)" for v n
    using that
    by (auto simp: h track_view_try_def validate_track_view HTTP_BAD_REQUEST_def
        js_Number_JNum js_le_def)
  have d: "track_view_handler e req srv =
      (\<lparr>status = 400, body = ValidationError ''Validation failed'' (Some (errors res))\<rparr>,
       counted e req srv)"
    if "validateInput (runtime e) (req_body req) track_view_schema = Inr res \<and> \<not> isValid res"
    for res
    using that by (simp add: h track_view_try_def HTTP_BAD_REQUEST_def)
  have g: "errors res = concat (map (entry_errors rt input) sch) \<and>
      isValid res = (errors res = [])"
    if "validateInput rt input sch = Inr res" for res
    using that by (rule validateInput_errors)
  from null a t b c d g show ?thesis by blast
qed

lemma dec_string_digits: "dec_string 5 = ''5''" "dec_string 3 = ''3''"
  by code_simp+

lemma two_fields:
  "validateInput plain_runtime (JObj [(units ''title'', JStr (units ''abcd''))]) two_field_schema =
     Inr \<lparr>isValid = False,
          errors = [''book_id is required'', ''title must be at least 5 characters'',
                    ''title must be at most 3 characters''],
          data = [(''title'', JStr (units ''abcd''))]\<rparr>"
  by (simp add: validateInput_def two_field_schema_def validate_entry_def js_get_def
      plain_runtime_def object_prototype_def is_blank_def type_check_def length_errors_def
      units_def code_unit_def dec_string_digits js_trim_def is_space_def)

theorem validation_outcomes_witness:
  "track_view_handler (sample_env healthy_db) (sample_request ''POST'' JNull) (new_server []) =
     (\<lparr>status = 500, body = InternalError False TypeError\<rparr>,
      (counted (sample_env healthy_db) (sample_request ''POST'' JNull) (new_server []))
        \<lparr>error_log := [(''Error tracking view'', Exception TypeError)]\<rparr>) \<and>
   track_view_handler (sample_env healthy_db) (sample_request ''POST'' (JObj [])) (new_server []) =
     (\<lparr>status = 400,
       body = ValidationError ''Validation failed'' (Some [''book_id is required''])\<rparr>,
      counted (sample_env healthy_db) (sample_request ''POST'' (JObj [])) (new_server [])) \<and>
   track_view_handler (sample_env healthy_db)
       (sample_request ''POST'' (JObj [(units ''book_id'', JStr (units ''abc''))])) (new_server []) =
     (\<lparr>status = 400,
       body = ValidationError ''Validation failed'' (Some [''book_id must be a number''])\<rparr>,
      counted (sample_env healthy_db)
        (sample_request ''POST'' (JObj [(units ''book_id'', JStr (units ''abc''))])) (new_server [])) \<and>
   track_view_handler (sample_env healthy_db)
       (sample_request ''POST'' (JObj [(units ''book_id'', JNum (Fin (- 5)))])) (new_server []) =
     (\<lparr>status = 400, body = ValidationError ''book_id must be a positive number'' None\<rparr>,
      counted (sample_env healthy_db)
        (sample_request ''POST'' (JObj [(units ''book_id'', JNum (Fin (- 5)))])) (new_server [])) \<and>
   concat (map (entry_errors plain_runtime (JObj [(units ''title'', JStr (units ''abcd''))]))
             two_field_schema) =
     [''book_id is required'', ''title must be at least 5 characters'',
      ''title must be at most 3 characters'']"
proof -
  let ?e = "sample_env healthy_db"
  have abc: "js_Number (JStr (units ''abc'')) = Inr NaN"
    by (simp add: js_Number_def number_text_defs)
  have 0: "req_body (sample_request ''POST'' JNull) = JNull"
    by (simp add: sample_request_def)
  have 1: "js_get (runtime ?e) (req_body (sample_request ''POST'' (JObj []))) ''book_id'' =
      Inr JUndefined"
    by (simp add: sample_request_def js_get_def sample_env_def plain_runtime_def
        object_prototype_def)
  have 2: "js_get (runtime ?e)
      (req_body (sample_request ''POST'' (JObj [(units ''book_id'', JStr (units ''abc''))])))
      ''book_id'' = Inr (JStr (units ''abc''))"
    by (simp add: sample_request_def js_get_def)
  have 3: "js_get (runtime ?e)
      (req_body (sample_request ''POST'' (JObj [(units ''book_id'', JNum (Fin (- 5)))])))
      ''book_id'' = Inr (JNum (Fin (- 5)))"
    by (simp add: sample_request_def js_get_def)
  have dev: "node_env ?e \<noteq> Some ''development''" by (simp add: sample_env_def)
  have s: "units ''abc'' \<noteq> []" by (simp add: units_def)
  have both: "concat (map (entry_errors plain_runtime
        (JObj [(units ''title'', JStr (units ''abcd''))])) two_field_schema) =
      [''book_id is required'', ''title must be at least 5 characters'',
       ''title must be at most 3 characters'']"
    using validation_outcomes [OF sample_post sample_passes, where rt = plain_runtime
        and input = "JObj [(units ''title'', JStr (units ''abcd''))]" and sch = two_field_schema]
      two_fields
    by simp
  show ?thesis
    using validation_outcomes [where e = ?e and req = "sample_request ''POST'' JNull"
        and srv = "new_server []"]
      validation_outcomes [where e = ?e and req = "sample_request ''POST'' (JObj [])"
        and srv = "new_server []"]
      validation_outcomes [where e = ?e
        and req = "sample_request ''POST'' (JObj [(units ''book_id'', JStr (units ''abc''))])"
        and srv = "new_server []"]
      validation_outcomes [where e = ?e
        and req = "sample_request ''POST'' (JObj [(units ''book_id'', JNum (Fin (- 5)))])"
        and srv = "new_server []"]
      sample_post sample_passes
      0 1 2 3 abc dev s both
    by (simp add: is_blank_def js_Number_JNum isNaN_def new_server_def)
qed

text \<open>
  Claim C4 as stated fails: a \<open>book_id\<close> that is an object with an own \<open>toString\<close> is
  neither a number nor convertible to one, and the POST is answered with HTTP 500,
  not with HTTP 400.
\<close>

theorem uncoercible_object_counterexample:
  "typeof (JObj [(units ''toString'', JStr (units ''x''))]) \<noteq> TyNumber \<and>
   js_Number (JObj [(units ''toString'', JStr (units ''x''))]) = Inl TypeError \<and>
   fst (track_view_handler (sample_env healthy_db)
         (sample_request ''POST''
            (JObj [(units ''book_id'', JObj [(units ''toString'', JStr (units ''x''))])]))
         (new_server [])) =
     \<lparr>status = 500, body = InternalError False TypeError\<rparr>"
proof -
  let ?e = "sample_env healthy_db"
  let ?v = "JObj [(units ''toString'', JStr (units ''x''))]"
  let ?req = "sample_request ''POST'' (JObj [(units ''book_id'', ?v)])"
  have n: "js_Number ?v = Inl TypeError" by (simp add: js_Number_def)
  have t: "track_view_try ?e ?req (counted ?e ?req (new_server [])) = Inl TypeError"
    by (simp add: track_view_try_def validate_track_view sample_request_def js_get_def
        is_blank_def n)
  have dev: "node_env ?e \<noteq> Some ''development''" by (simp add: sample_env_def)
  show ?thesis
    unfolding handler_post_allowed [OF sample_post sample_passes] t
    using dev n by (simp add: HTTP_INTERNAL_ERROR_def)
qed

section \<open>Properties of the view observer\<close>

lemma call_book_track_call: "call_book (track_call b) = JStr b"
  by (simp add: call_book_def track_call_def)

lemma fetched_trackBookView: "fetched (trackBookView net b pg) = fetched pg @ [track_call b]"
  by (simp add: trackBookView_def track_call_def Let_def split: option.splits)

lemma viewedBooks_trackBookView: "viewedBooks (trackBookView net b pg) = viewedBooks pg"
  by (simp add: trackBookView_def Let_def split: option.splits)

text \<open>What one entry does to the calls made and to the set of books seen.\<close>

lemma fetched_observe_entry:
  "fetched (observe_entry net pg en) =
     (case bookId en of
        None \<Rightarrow> fetched pg
      | Some b \<Rightarrow>
          if isIntersecting en \<and> b \<noteq> [] \<and> b \<notin> viewedBooks pg
          then fetched pg @ [track_call b] else fetched pg)"
  by (simp add: observe_entry_def fetched_trackBookView split: option.splits)

lemma viewedBooks_observe_entry:
  "viewedBooks (observe_entry net pg en) =
     (case bookId en of
        None \<Rightarrow> viewedBooks pg
      | Some b \<Rightarrow>
          if isIntersecting en \<and> b \<noteq> [] then insert b (viewedBooks pg) else viewedBooks pg)"
  by (auto simp: observe_entry_def viewedBooks_trackBookView split: option.splits)

lemma calls_for_observe_entry:
  "calls_for b (observe_entry net pg en) =
     calls_for b pg +
       (if isIntersecting en \<and> bookId en = Some b \<and> b \<noteq> [] \<and> b \<notin> viewedBooks pg
        then 1 else 0)"
  by (auto simp: calls_for_def fetched_observe_entry call_book_track_call split: option.splits)

lemma viewObserver_Cons:
  "viewObserver net pg (en # entries) = viewObserver net (observe_entry net pg en) entries"
  by (simp add: viewObserver_def)

lemma viewedBooks_viewObserver:
  "viewedBooks (viewObserver net pg entries) =
     viewedBooks pg \<union> {b. b \<noteq> [] \<and> (\<exists>en \<in> set entries. isIntersecting en \<and> bookId en = Some b)}"
proof (induction entries arbitrary: pg)
  case Nil
  then show ?case by (simp add: viewObserver_def)
next
  case (Cons en entries)
  show ?case
    unfolding viewObserver_Cons Cons.IH viewedBooks_observe_entry
    by (auto split: option.splits)
qed

lemma calls_for_viewObserver:
  "calls_for b (viewObserver net pg entries) =
     calls_for b pg +
       (if b \<noteq> [] \<and> b \<notin> viewedBooks pg \<and>
           (\<exists>en \<in> set entries. isIntersecting en \<and> bookId en = Some b)
        then 1 else 0)"
proof (induction entries arbitrary: pg)
  case Nil
  then show ?case by (simp add: viewObserver_def)
next
  case (Cons en entries)
  show ?case
    unfolding viewObserver_Cons Cons.IH calls_for_observe_entry viewedBooks_observe_entry
    by (auto split: option.splits)
qed

lemma session_concat: "session net batches = viewObserver net fresh_page (concat batches)"
proof -
  have "foldl (viewObserver net) pg batches = viewObserver net pg (concat batches)" for pg
    by (induction batches arbitrary: pg) (simp_all add: viewObserver_def)
  then show ?thesis by (simp add: session_def)
qed

text \<open>
  Claim C7. In a page session, whatever the batches of entries the observer is handed,
  the number of ingestion calls made for an identifier is one when some intersecting
  entry carried it, and none otherwise; a missing or empty identifier never makes a
  call. The first intersecting entry of an identifier that is not yet in
  \<open>viewedBooks\<close> puts it there and makes exactly one call, for that identifier; once
  an identifier is in \<open>viewedBooks\<close> it stays there and no entry makes a call for it
  again.
\<close>

theorem one_call_per_book:
  "calls_for b (session net batches) =
     (if b \<noteq> [] \<and> (\<exists>en \<in> set (concat batches). isIntersecting en \<and> bookId en = Some b)
      then 1 else 0) \<and>
   (b \<noteq> [] \<and> b \<notin> viewedBooks pg \<and> isIntersecting en \<and> bookId en = Some b \<longrightarrow>
      b \<in> viewedBooks (observe_entry net pg en) \<and>
      fetched (observe_entry net pg en) = fetched pg @ [track_call b]) \<and>
   (b \<in> viewedBooks pg \<longrightarrow>
      b \<in> viewedBooks (viewObserver net pg entries) \<and>
      calls_for b (viewObserver net pg entries) = calls_for b pg)"
proof -
  have "calls_for b fresh_page = 0" "b \<notin> viewedBooks fresh_page"
    by (simp_all add: calls_for_def fresh_page_def)
  then have 1: "calls_for b (session net batches) =
     (if b \<noteq> [] \<and> (\<exists>en \<in> set (concat batches). isIntersecting en \<and> bookId en = Some b)
      then 1 else 0)"
    unfolding session_concat calls_for_viewObserver by simp
  have 2: "b \<noteq> [] \<and> b \<notin> viewedBooks pg \<and> isIntersecting en \<and> bookId en = Some b \<longrightarrow>
      b \<in> viewedBooks (observe_entry net pg en) \<and>
      fetched (observe_entry net pg en) = fetched pg @ [track_call b]"
    by (simp add: fetched_observe_entry viewedBooks_observe_entry)
  have 3: "b \<in> viewedBooks pg \<longrightarrow>
      b \<in> viewedBooks (viewObserver net pg entries) \<and>
      calls_for b (viewObserver net pg entries) = calls_for b pg"
    by (simp add: calls_for_viewObserver viewedBooks_viewObserver)
  from 1 2 3 show ?thesis by blast
qed

theorem one_call_per_book_witness:
  "calls_for (units ''7'')
     (session online
        [[\<lparr>isIntersecting = True, bookId = Some (units ''7'')\<rparr>],
         [\<lparr>isIntersecting = False, bookId = Some (units ''7'')\<rparr>],
         [\<lparr>isIntersecting = True, bookId = Some (units ''7'')\<rparr>,
          \<lparr>isIntersecting = True, bookId = Some (units ''9'')\<rparr>]]) = 1"
  using one_call_per_book [of "units ''7''" online
      "[[\<lparr>isIntersecting = True, bookId = Some (units ''7'')\<rparr>],
        [\<lparr>isIntersecting = False, bookId = Some (units ''7'')\<rparr>],
        [\<lparr>isIntersecting = True, bookId = Some (units ''7'')\<rparr>,
         \<lparr>isIntersecting = True, bookId = Some (units ''9'')\<rparr>]]"]
  by (simp add: units_def)

section \<open>Coercion of the identifier\<close>

text \<open>Every call a page has made is a call of \<open>trackBookView\<close> for a non-empty identifier.\<close>

lemma viewObserver_calls:
  assumes "\<forall>c \<in> set (fetched pg). \<exists>b. b \<noteq> [] \<and> c = track_call b"
  shows "\<forall>c \<in> set (fetched (viewObserver net pg entries)). \<exists>b. b \<noteq> [] \<and> c = track_call b"
  using assms
proof (induction entries arbitrary: pg)
  case Nil
  then show ?case by (simp add: viewObserver_def)
next
  case (Cons en entries)
  have "\<forall>c \<in> set (fetched (observe_entry net pg en)). \<exists>b. b \<noteq> [] \<and> c = track_call b"
    using Cons.prems by (auto simp: fetched_observe_entry split: option.splits)
  then show ?case unfolding viewObserver_Cons by (rule Cons.IH)
qed

lemma session_calls:
  "\<forall>c \<in> set (fetched (session net batches)). \<exists>b. b \<noteq> [] \<and> c = track_call b"
  unfolding session_concat by (rule viewObserver_calls) (simp add: fresh_page_def)

lemma calls_for_session:
  "calls_for b (session net batches) =
     (if b \<noteq> [] \<and> (\<exists>en \<in> set (concat batches). isIntersecting en \<and> bookId en = Some b)
      then 1 else 0)"
proof -
  have "calls_for b fresh_page = 0" "b \<notin> viewedBooks fresh_page"
    by (simp_all add: calls_for_def fresh_page_def)
  then show ?thesis
    unfolding session_concat calls_for_viewObserver by simp
qed

text \<open>The calls of a session are the calls for the identifiers that were seen intersecting.\<close>

lemma session_fetched:
  "set (fetched (session net batches)) =
     track_call ` {b. b \<noteq> [] \<and> (\<exists>en \<in> set (concat batches). isIntersecting en \<and> bookId en = Some b)}"
  (is "?L = track_call ` ?S")
proof (rule set_eqI)
  fix c
  show "c \<in> ?L \<longleftrightarrow> c \<in> track_call ` ?S"
  proof
    assume c: "c \<in> ?L"
    with session_calls [of net batches] obtain b where b: "b \<noteq> []" "c = track_call b"
      by blast
    from c b have "\<exists>x \<in> set (fetched (session net batches)). call_book x = JStr b"
      using call_book_track_call [of b] by blast
    then have "filter (\<lambda>c. call_book c = JStr b) (fetched (session net batches)) \<noteq> []"
      by (simp add: filter_empty_conv)
    then have "calls_for b (session net batches) \<noteq> 0"
      by (simp add: calls_for_def)
    then have "b \<in> ?S"
      by (simp add: calls_for_session split: if_splits)
    with b show "c \<in> track_call ` ?S" by blast
  next
    assume "c \<in> track_call ` ?S"
    then obtain b where b: "b \<in> ?S" "c = track_call b" by blast
    then have "calls_for b (session net batches) = 1"
      by (simp add: calls_for_session)
    then have "filter (\<lambda>c. call_book c = JStr b) (fetched (session net batches)) \<noteq> []"
      by (auto simp: calls_for_def)
    then obtain c' where c': "c' \<in> ?L" "call_book c' = JStr b"
      by (auto simp: filter_empty_conv)
    with session_calls [of net batches] obtain b' where "c' = track_call b'" by blast
    with c' have "c' = track_call b" by (simp add: call_book_track_call)
    with c' b show "c \<in> ?L" by simp
  qed
qed

lemma track_call_book_id:
  "js_get rt (fetch_body (track_call b)) ''book_id'' = Inr (JStr b)"
  by (simp add: track_call_def js_get_def)

lemma blank_number: "is_blank v \<Longrightarrow> js_Number v = Inr n \<Longrightarrow> n = NaN \<or> n = Fin 0"
  by (auto simp: is_blank_def js_Number_def string_to_number_def js_trim_def)

text \<open>
  Claim C10, as amended. A \<open>book_id\<close> that is not a number and that \<open>Number\<close> converts to
  a value other than \<open>NaN\<close> passes the schema with the converted value, a double, in
  its place, provided it is present: null and the empty string convert to 0 and are
  refused as missing, with \<open>book_id is required\<close>. When the converted value is positive,
  a POST that passed the limiter inserts a row with the converted value and is
  answered with HTTP 200 and \<open>{success: true, tracked: true}\<close>. The calls a page session
  makes are exactly the calls of \<open>trackBookView\<close> for the non-empty identifiers seen
  intersecting, and each is a POST to the endpoint whose body carries \<open>book_id\<close> as that
  string, never as a number.
\<close>

theorem coerced_book_id_accepted:
  assumes "js_get (runtime e) (req_body req) ''book_id'' = Inr v" and "typeof v \<noteq> TyNumber"
    and "js_Number v = Inr n" and "\<not> isNaN n"
  shows "(\<not> is_blank v \<longrightarrow>
            validateInput (runtime e) (req_body req) track_view_schema =
              Inr \<lparr>isValid = True, errors = [], data = [(''book_id'', JNum n)]\<rparr>) \<and>
         (is_blank v \<longrightarrow>
            n = Fin 0 \<and>
            validateInput (runtime e) (req_body req) track_view_schema =
              Inr \<lparr>isValid = False, errors = [''book_id is required''], data = []\<rparr>) \<and>
         (req_method req = ''POST'' \<and> passes_limiter e req srv \<and> \<not> num_le n (Fin 0) \<and>
          db_insert e (JNum n) = Inserted \<longrightarrow>
            track_view_handler e req srv =
              (\<lparr>status = 200, body = Tracked True\<rparr>,
               (counted e req srv)\<lparr>book_views := book_views srv @ [JNum n]\<rparr>)) \<and>
         set (fetched (session net batches)) =
           track_call ` {b. b \<noteq> [] \<and>
              (\<exists>en \<in> set (concat batches). isIntersecting en \<and> bookId en = Some b)} \<and>
         (\<forall>b. url (track_call b) = ''/api/bookshelf/track-view'' \<and>
              fetch_method (track_call b) = ''POST'' \<and>
              js_get rt (fetch_body (track_call b)) ''book_id'' = Inr (JStr b) \<and>
              typeof (JStr b) = TyString \<and> (b \<noteq> [] \<longrightarrow> \<not> is_blank (JStr b)))"
proof -
  have valid: "validateInput (runtime e) (req_body req) track_view_schema =
      Inr \<lparr>isValid = True, errors = [], data = [(''book_id'', JNum n)]\<rparr>" if "\<not> is_blank v"
    using that assms by (simp add: validate_track_view)
  have blank: "n = Fin 0 \<and> validateInput (runtime e) (req_body req) track_view_schema =
      Inr \<lparr>isValid = False, errors = [''book_id is required''], data = []\<rparr>" if "is_blank v"
    using that assms blank_number [of v n] by (auto simp: validate_track_view isNaN_def)
  have pos: "\<not> is_blank v" if "\<not> num_le n (Fin 0)"
    using that assms(3,4) blank_number [of v n] by (auto simp: isNaN_def)
  have row: "track_view_handler e req srv =
      (\<lparr>status = 200, body = Tracked True\<rparr>,
       (counted e req srv)\<lparr>book_views := book_views srv @ [JNum n]\<rparr>)"
    if "req_method req = ''POST'' \<and> passes_limiter e req srv \<and> \<not> num_le n (Fin 0) \<and>
        db_insert e (JNum n) = Inserted"
    using that valid [OF pos]
    by (simp add: handler_post_allowed track_view_try_def js_le_def js_Number_JNum HTTP_OK_def
        counted_def)
  have client: "url (track_call b) = ''/api/bookshelf/track-view'' \<and>
      fetch_method (track_call b) = ''POST'' \<and>
      js_get rt (fetch_body (track_call b)) ''book_id'' = Inr (JStr b) \<and>
      typeof (JStr b) = TyString \<and> (b \<noteq> [] \<longrightarrow> \<not> is_blank (JStr b))" for b
    by (simp add: track_call_book_id is_blank_def) (simp add: track_call_def)
  from valid blank row client session_fetched [of net batches] show ?thesis by blast
qed

theorem coerced_book_id_accepted_witness:
  "track_view_handler (sample_env healthy_db)
       (sample_request ''POST'' (JObj [(units ''book_id'', JStr (units ''42''))])) (new_server []) =
     (\<lparr>status = 200, body = Tracked True\<rparr>,
      (counted (sample_env healthy_db)
         (sample_request ''POST'' (JObj [(units ''book_id'', JStr (units ''42''))])) (new_server []))
        \<lparr>book_views := [JNum (Fin 42)]\<rparr>) \<and>
   track_view_handler (sample_env healthy_db)
       (sample_request ''POST'' (JObj [(units ''book_id'', JBool True)])) (new_server []) =
     (\<lparr>status = 200, body = Tracked True\<rparr>,
      (counted (sample_env healthy_db)
         (sample_request ''POST'' (JObj [(units ''book_id'', JBool True)])) (new_server []))
        \<lparr>book_views := [JNum (Fin 1)]\<rparr>) \<and>
   track_view_handler (sample_env healthy_db)
       (sample_request ''POST'' (JObj [(units ''book_id'', JStr (units ''9007199254740993''))]))
       (new_server []) =
     (\<lparr>status = 200, body = Tracked True\<rparr>,
      (counted (sample_env healthy_db)
         (sample_request ''POST'' (JObj [(units ''book_id'', JStr (units ''9007199254740993''))]))
         (new_server []))
        \<lparr>book_views := [JNum (Fin 9007199254740992)]\<rparr>) \<and>
   set (fetched (session online [[\<lparr>isIntersecting = True, bookId = Some (units ''42'')\<rparr>]])) =
     {track_call (units ''42'')} \<and>
   fetch_body (track_call (units ''42'')) = JObj [(units ''book_id'', JStr (units ''42''))]"
proof -
  let ?e = "sample_env healthy_db"
  let ?r42 = "sample_request ''POST'' (JObj [(units ''book_id'', JStr (units ''42''))])"
  let ?rT = "sample_request ''POST'' (JObj [(units ''book_id'', JBool True)])"
  let ?rB = "sample_request ''POST'' (JObj [(units ''book_id'', JStr (units ''9007199254740993''))])"
  let ?batches = "[[\<lparr>isIntersecting = True, bookId = Some (units ''42'')\<rparr>]]"
  have n42: "js_Number (JStr (units ''42'')) = Inr (Fin 42)"
    by (simp add: js_Number_def number_text_defs)
  have nT: "js_Number (JBool True) = Inr (Fin 1)"
    by (simp add: js_Number_def)
  have nB: "js_Number (JStr (units ''9007199254740993'')) = Inr (Fin 9007199254740992)"
    by (simp add: js_Number_def number_text_defs)
  have g42: "js_get (runtime ?e) (req_body ?r42) ''book_id'' = Inr (JStr (units ''42''))"
    by (simp add: sample_request_def js_get_def)
  have gT: "js_get (runtime ?e) (req_body ?rT) ''book_id'' = Inr (JBool True)"
    by (simp add: sample_request_def js_get_def)
  have gB: "js_get (runtime ?e) (req_body ?rB) ''book_id'' =
      Inr (JStr (units ''9007199254740993''))"
    by (simp add: sample_request_def js_get_def)
  have db: "db_insert ?e x = Inserted" for x
    by (simp add: sample_env_def healthy_db_def)
  have seen: "{b. b \<noteq> [] \<and> (\<exists>en \<in> set (concat ?batches). isIntersecting en \<and> bookId en = Some b)}
      = {units ''42''}"
    by (auto simp: units_def)
  have 1: "track_view_handler ?e ?r42 (new_server []) =
      (\<lparr>status = 200, body = Tracked True\<rparr>,
       (counted ?e ?r42 (new_server []))\<lparr>book_views := [JNum (Fin 42)]\<rparr>)"
    using coerced_book_id_accepted [OF g42 _ n42, where srv = "new_server []"]
      sample_post sample_passes db
    by (simp add: isNaN_def new_server_def)
  have 2: "track_view_handler ?e ?rT (new_server []) =
      (\<lparr>status = 200, body = Tracked True\<rparr>,
       (counted ?e ?rT (new_server []))\<lparr>book_views := [JNum (Fin 1)]\<rparr>)"
    using coerced_book_id_accepted [OF gT _ nT, where srv = "new_server []"]
      sample_post sample_passes db
    by (simp add: isNaN_def new_server_def)
  have 3: "track_view_handler ?e ?rB (new_server []) =
      (\<lparr>status = 200, body = Tracked True\<rparr>,
       (counted ?e ?rB (new_server []))\<lparr>book_views := [JNum (Fin 9007199254740992)]\<rparr>)"
    using coerced_book_id_accepted [OF gB _ nB, where srv = "new_server []"]
      sample_post sample_passes db
    by (simp add: isNaN_def new_server_def)
  have 4: "set (fetched (session online ?batches)) = {track_call (units ''42'')}"
    using coerced_book_id_accepted [OF g42 _ n42, where net = online and batches = ?batches]
    unfolding seen by (simp add: isNaN_def)
  have 5: "fetch_body (track_call (units ''42'')) = JObj [(units ''book_id'', JStr (units ''42''))]"
    by (simp add: track_call_def)
  from 1 2 3 4 5 show ?thesis by blast
qed

text \<open>
  Claim C10 as stated fails: the empty string is not a number and \<open>Number\<close> converts it
  to 0, not to \<open>NaN\<close>, yet it does not pass the schema: the POST is answered with HTTP
  400 and \<open>book_id is required\<close>.
\<close>

theorem blank_book_id_counterexample:
  "typeof (JStr []) \<noteq> TyNumber \<and> js_Number (JStr []) = Inr (Fin 0) \<and> \<not> isNaN (Fin 0) \<and>
   fst (track_view_handler (sample_env healthy_db)
         (sample_request ''POST'' (JObj [(units ''book_id'', JStr [])])) (new_server [])) =
     \<lparr>status = 400,
      body = ValidationError ''Validation failed'' (Some [''book_id is required''])\<rparr>"
proof -
  let ?e = "sample_env healthy_db"
  let ?req = "sample_request ''POST'' (JObj [(units ''book_id'', JStr [])])"
  have n: "js_Number (JStr []) = Inr (Fin 0)"
    by (simp add: js_Number_def string_to_number_def js_trim_def)
  have t: "track_view_try ?e ?req (counted ?e ?req (new_server [])) =
      Inr (\<lparr>status = 400,
            body = ValidationError ''Validation failed'' (Some [''book_id is required''])\<rparr>,
           counted ?e ?req (new_server []))"
    by (simp add: track_view_try_def validate_track_view sample_request_def js_get_def
        is_blank_def HTTP_BAD_REQUEST_def)
  show ?thesis
    unfolding handler_post_allowed [OF sample_post sample_passes] t
    using n by (simp add: isNaN_def)
qed

end
